theory Spec2Isabelle
  imports Main
begin

section \<open>Data model\<close>

text \<open>
  Points in time (\<open>datetime\<close> values) are whole seconds since the epoch, and a
  \<open>timedelta\<close> is a number of seconds.  The clock (\<open>datetime.utcnow()\<close>) is an
  argument \<open>now\<close> of every operation that reads it; one request reads it once.
\<close>

type_synonym datetime = int

definition minutes :: "int \<Rightarrow> int" where
  "minutes m = 60 * m"

definition days :: "int \<Rightarrow> int" where
  "days d = 86400 * d"

datatype UserRole = ADMIN | USER

datatype TaskStatus = TODO | IN_PROGRESS | DONE

datatype TaskPriority = LOW | MEDIUM | HIGH | URGENT

text \<open>The \<open>value\<close> of each member of the two string enumerations of \<open>models/task.py\<close>.\<close>

fun status_value :: "TaskStatus \<Rightarrow> string" where
  "status_value TODO = ''todo''"
| "status_value IN_PROGRESS = ''in_progress''"
| "status_value DONE = ''done''"

fun priority_value :: "TaskPriority \<Rightarrow> string" where
  "priority_value LOW = ''low''"
| "priority_value MEDIUM = ''medium''"
| "priority_value HIGH = ''high''"
| "priority_value URGENT = ''urgent''"

text \<open>Iterating over an enumeration class yields its members in definition order.\<close>

definition all_TaskStatus :: "TaskStatus list" where
  "all_TaskStatus = [TODO, IN_PROGRESS, DONE]"

definition all_TaskPriority :: "TaskPriority list" where
  "all_TaskPriority = [LOW, MEDIUM, HIGH, URGENT]"

record User =
  u_id :: int
  u_email :: string
  u_username :: string
  u_hashed_password :: string
  u_role :: UserRole
  u_is_active :: bool
  u_created_at :: datetime
  u_updated_at :: datetime

record Task =
  t_id :: int
  t_title :: string
  t_description :: "string option"
  t_status :: TaskStatus
  t_priority :: TaskPriority
  t_due_date :: "datetime option"
  t_assigned_user_id :: "int option"
  t_created_by :: int
  t_created_at :: datetime
  t_updated_at :: datetime
  t_is_deleted :: bool

text \<open>
  A signed token.  The application hands tokens around as strings; what it does with
  them is compare them for equality, sign a claim set into one and decode one back.
  \<open>JWT key alg payload\<close> is the string that signing \<open>payload\<close> with \<open>key\<close> under
  algorithm \<open>alg\<close> yields; \<open>Malformed s\<close> is any other string, which no key decodes.
  The payload carries the three claims the application writes and reads; \<open>None\<close> is
  a claim the payload does not have.
\<close>

record claims =
  c_sub :: "string option"
  c_exp :: "datetime option"
  c_type :: "string option"

datatype token = Malformed string | JWT string string claims

record RefreshToken =
  rt_id :: int
  rt_token :: token
  rt_user_id :: int
  rt_expires_at :: datetime
  rt_is_revoked :: bool
  rt_created_at :: datetime
  rt_replaced_by_token :: "token option"

text \<open>Values of the before/after snapshots of an audit entry (JSON).\<close>

datatype json = JNull | JBool bool | JInt int | JStr string | JIsoformat datetime

record AuditLog =
  al_id :: int
  al_user_id :: int
  al_task_id :: "int option"
  al_action :: string
  al_old_values :: "(string \<times> json) list option"
  al_new_values :: "(string \<times> json) list option"
  al_timestamp :: datetime

text \<open>The four tables, each in insertion order.\<close>

record database =
  users :: "User list"
  tasks :: "Task list"
  refresh_tokens :: "RefreshToken list"
  audit_logs :: "AuditLog list"

text \<open>
  The primary keys come from a sequence of the storage engine: a new row gets an id
  above every id of its table.
\<close>

definition next_id :: "int list \<Rightarrow> int" where
  "next_id ids = fold max ids 0 + 1"

section \<open>Errors\<close>

datatype status =
  HTTP_400_BAD_REQUEST
| HTTP_401_UNAUTHORIZED
| HTTP_403_FORBIDDEN
| HTTP_404_NOT_FOUND
| HTTP_422_UNPROCESSABLE_ENTITY
| HTTP_500_INTERNAL_SERVER_ERROR

text \<open>
  What a handler can raise: an \<open>HTTPException\<close> with its status and detail, a
  validation error of the request, or an error of the storage engine at a commit or a
  query.
\<close>

datatype error =
  HTTPException status string
| RequestValidationError
| IntegrityError
| DataError


section \<open>Configuration (\<open>core/config.py\<close>)\<close>

record Settings =
  jwt_secret_key :: string
  jwt_algorithm :: string
  jwt_access_token_expire_minutes :: int
  jwt_refresh_token_expire_days :: int

definition default_settings :: Settings where
  "default_settings =
     \<lparr>jwt_secret_key = ''your-super-secret-jwt-key-change-this-in-production'',
      jwt_algorithm = ''HS256'',
      jwt_access_token_expire_minutes = 15,
      jwt_refresh_token_expire_days = 7\<rparr>"

section \<open>Decimal integers\<close>

text \<open>
  \<open>str(n)\<close> of an integer and \<open>int(s)\<close> of a string, for decimal ASCII digits with
  an optional sign, the strings \<open>str\<close> produces; \<open>int\<close> raises \<open>ValueError\<close>
  (\<open>None\<close>) on anything else.  (Surrounding blanks and underscores between digits,
  which \<open>int\<close> also reads, are left out.)
\<close>

definition digit_char :: "nat \<Rightarrow> char" where
  "digit_char d = ''0123456789'' ! d"

fun str_nat :: "nat \<Rightarrow> string" where
  "str_nat n = (if n < 10 then [digit_char n] else str_nat (n div 10) @ [digit_char (n mod 10)])"

declare str_nat.simps [simp del]

definition str :: "int \<Rightarrow> string" where
  "str n = (if n < 0 then CHR ''-'' # str_nat (nat (- n)) else str_nat (nat n))"

definition digit_val :: "char \<Rightarrow> nat option" where
  "digit_val c = map_of (zip ''0123456789'' [0, 1, 2, 3, 4, 5, 6, 7, 8, 9]) c"

fun int_digits :: "nat \<Rightarrow> string \<Rightarrow> nat option" where
  "int_digits acc [] = Some acc"
| "int_digits acc (c # cs) =
     (case digit_val c of None \<Rightarrow> None | Some d \<Rightarrow> int_digits (10 * acc + d) cs)"

definition int_of_digits :: "string \<Rightarrow> nat option" where
  "int_of_digits s = (if s = [] then None else int_digits 0 s)"

definition int_of_str :: "string \<Rightarrow> int option" where
  "int_of_str s =
     (case s of
        [] \<Rightarrow> None
      | c # cs \<Rightarrow>
          if c = CHR ''-'' then map_option (\<lambda>n. - int n) (int_of_digits cs)
          else if c = CHR ''+'' then map_option int (int_of_digits cs)
          else map_option int (int_of_digits s))"

section \<open>Token service (\<open>core/security.py\<close>)\<close>

text \<open>
  The signing library, which is not part of the repository; the model keeps the two
  checks the application relies on.  \<open>jwt_encode\<close> signs a claim set; \<open>jwt_decode\<close>
  checks the signature against the key and the accepted algorithm, then the expiry
  claim against the clock (a token is expired when its \<open>exp\<close> lies before \<open>now\<close>),
  and raises \<open>JWTError\<close> when either check fails.
\<close>

datatype JWTError = JWSSignatureError | ExpiredSignatureError

definition jwt_encode :: "claims \<Rightarrow> string \<Rightarrow> string \<Rightarrow> token" where
  "jwt_encode payload key alg = JWT key alg payload"

fun jwt_decode :: "datetime \<Rightarrow> token \<Rightarrow> string \<Rightarrow> string \<Rightarrow> JWTError + claims" where
  "jwt_decode now (Malformed s) key alg = Inl JWSSignatureError"
| "jwt_decode now (JWT k a payload) key alg =
     (if k \<noteq> key \<or> a \<noteq> alg then Inl JWSSignatureError
      else case c_exp payload of
             None \<Rightarrow> Inr payload
           | Some e \<Rightarrow> if e < now then Inl ExpiredSignatureError else Inr payload)"

text \<open>\<open>expires_delta\<close> is optional, and a zero \<open>timedelta\<close> is false in a condition.\<close>

definition create_access_token :: "Settings \<Rightarrow> datetime \<Rightarrow> claims \<Rightarrow> int option \<Rightarrow> token" where
  "create_access_token settings now data expires_delta =
     (let expire = (case expires_delta of
                      Some d \<Rightarrow> if d \<noteq> 0 then now + d
                                else now + minutes (jwt_access_token_expire_minutes settings)
                    | None \<Rightarrow> now + minutes (jwt_access_token_expire_minutes settings));
          to_encode = data\<lparr>c_exp := Some expire, c_type := Some ''access''\<rparr>
      in jwt_encode to_encode (jwt_secret_key settings) (jwt_algorithm settings))"

definition create_refresh_token :: "Settings \<Rightarrow> datetime \<Rightarrow> claims \<Rightarrow> token" where
  "create_refresh_token settings now data =
     (let expire = now + days (jwt_refresh_token_expire_days settings);
          to_encode = data\<lparr>c_exp := Some expire, c_type := Some ''refresh''\<rparr>
      in jwt_encode to_encode (jwt_secret_key settings) (jwt_algorithm settings))"

definition verify_token :: "Settings \<Rightarrow> datetime \<Rightarrow> token \<Rightarrow> string \<Rightarrow> error + claims" where
  "verify_token settings now tok token_type =
     (case jwt_decode now tok (jwt_secret_key settings) (jwt_algorithm settings) of
        Inl e \<Rightarrow> Inl (HTTPException HTTP_401_UNAUTHORIZED ''Could not validate credentials'')
      | Inr payload \<Rightarrow>
          if c_type payload \<noteq> Some token_type
          then Inl (HTTPException HTTP_401_UNAUTHORIZED ''Invalid token type'')
          else Inr payload)"

section \<open>Request guards (\<open>middleware/auth.py\<close>)\<close>

text \<open>
  \<open>get_current_user\<close> compares the integer key column with the subject claim, a
  string.  The comparison is made by the storage engine, which reads the string as a
  value of the column's type and fails the query when it cannot: the string is not an
  integer as the engine writes them, or the integer is outside the range of the
  column.  That reading belongs to the engine and not to the repository; it is the
  argument \<open>int4in\<close> of the guard, \<open>None\<close> where the engine refuses the string.
\<close>

definition get_current_user ::
  "Settings \<Rightarrow> (string \<Rightarrow> int option) \<Rightarrow> database \<Rightarrow> datetime \<Rightarrow> token \<Rightarrow> error + User" where
  "get_current_user settings int4in db now credentials =
     (case verify_token settings now credentials ''access'' of
        Inl e \<Rightarrow> Inl e
      | Inr payload \<Rightarrow>
          (case c_sub payload of
             None \<Rightarrow> Inl (HTTPException HTTP_401_UNAUTHORIZED ''Could not validate credentials'')
           | Some user_id \<Rightarrow>
               (case int4in user_id of
                  None \<Rightarrow> Inl DataError
                | Some uid \<Rightarrow>
                    (case find (\<lambda>u. u_id u = uid) (users db) of
                       None \<Rightarrow> Inl (HTTPException HTTP_401_UNAUTHORIZED ''User not found or inactive'')
                     | Some user \<Rightarrow>
                         if \<not> u_is_active user
                         then Inl (HTTPException HTTP_401_UNAUTHORIZED ''User not found or inactive'')
                         else Inr user))))"

definition get_current_active_user :: "User \<Rightarrow> error + User" where
  "get_current_active_user current_user =
     (if \<not> u_is_active current_user
      then Inl (HTTPException HTTP_400_BAD_REQUEST ''Inactive user'')
      else Inr current_user)"

definition get_admin_user :: "User \<Rightarrow> error + User" where
  "get_admin_user current_user =
     (if u_role current_user \<noteq> ADMIN
      then Inl (HTTPException HTTP_403_FORBIDDEN ''Not enough permissions'')
      else Inr current_user)"

text \<open>
  The dependency chains as the routes declare them: \<open>Depends(get_current_active_user)\<close>
  runs \<open>get_current_user\<close> and hands its user on, \<open>Depends(get_admin_user)\<close> runs that
  chain and hands its user on.  A guard that raises ends the request.
\<close>

definition depends_current_active_user ::
  "Settings \<Rightarrow> (string \<Rightarrow> int option) \<Rightarrow> database \<Rightarrow> datetime \<Rightarrow> token \<Rightarrow> error + User" where
  "depends_current_active_user settings int4in db now credentials =
     (case get_current_user settings int4in db now credentials of
        Inl e \<Rightarrow> Inl e
      | Inr user \<Rightarrow> get_current_active_user user)"

definition depends_admin_user ::
  "Settings \<Rightarrow> (string \<Rightarrow> int option) \<Rightarrow> database \<Rightarrow> datetime \<Rightarrow> token \<Rightarrow> error + User" where
  "depends_admin_user settings int4in db now credentials =
     (case depends_current_active_user settings int4in db now credentials of
        Inl e \<Rightarrow> Inl e
      | Inr user \<Rightarrow> get_admin_user user)"


definition with_admin_user ::
  "Settings \<Rightarrow> (string \<Rightarrow> int option) \<Rightarrow> database \<Rightarrow> datetime \<Rightarrow> token \<Rightarrow>
   (User \<Rightarrow> (error + 'a) \<times> database) \<Rightarrow>
   (error + 'a) \<times> database" where
  "with_admin_user settings int4in db now credentials handler =
     (case depends_admin_user settings int4in db now credentials of
        Inl e \<Rightarrow> (Inl e, db)
      | Inr admin_user \<Rightarrow> handler admin_user)"

section \<open>Audit service (\<open>utils/audit.py\<close>)\<close>

text \<open>\<open>log_action\<close> adds one entry and commits; the engine stamps it with the time.\<close>

definition log_action ::
  "database \<Rightarrow> datetime \<Rightarrow> int \<Rightarrow> string \<Rightarrow> int option \<Rightarrow>
   (string \<times> json) list option \<Rightarrow> (string \<times> json) list option \<Rightarrow> database" where
  "log_action db now user_id action task_id old_values new_values =
     (let audit_log =
            \<lparr>al_id = next_id (map al_id (audit_logs db)),
             al_user_id = user_id,
             al_task_id = task_id,
             al_action = action,
             al_old_values = old_values,
             al_new_values = new_values,
             al_timestamp = now\<rparr>
      in db\<lparr>audit_logs := audit_logs db @ [audit_log]\<rparr>)"

section \<open>Authentication routes (\<open>api/auth.py\<close>)\<close>

record LoginRequest =
  lr_email :: string
  lr_password :: string

record RefreshTokenRequest =
  rq_refresh_token :: token

record TokenResponse =
  access_token :: token
  token_type :: string

record Cookie =
  ck_key :: string
  ck_value :: token
  ck_httponly :: bool
  ck_secure :: bool
  ck_samesite :: string
  ck_max_age :: int

text \<open>
  A route of this module yields what it returns or raises, the cookies it has set on
  the response that is sent (none when it raises: the error response replaces the
  one the cookies were set on), and the database after the request.  A request that
  raises leaves behind what it had committed before, and nothing else.

  The column \<open>refresh_tokens.token\<close> is unique: committing a row whose token is
  already stored raises \<open>IntegrityError\<close>.
\<close>

definition add_refresh_token :: "database \<Rightarrow> RefreshToken \<Rightarrow> error + database" where
  "add_refresh_token db obj =
     (if rt_token obj \<in> set (map rt_token (refresh_tokens db)) then Inl IntegrityError
      else Inr (db\<lparr>refresh_tokens := refresh_tokens db @ [obj]\<rparr>))"

definition refresh_cookie :: "token \<Rightarrow> Cookie" where
  "refresh_cookie tok =
     \<lparr>ck_key = ''refresh_token'', ck_value = tok, ck_httponly = True, ck_secure = True,
      ck_samesite = ''strict'', ck_max_age = 7 * 24 * 60 * 60\<rparr>"

definition subject :: "int \<Rightarrow> claims" where
  "subject user_id = \<lparr>c_sub = Some (str user_id), c_exp = None, c_type = None\<rparr>"

text \<open>
  \<open>password_service.verify_password\<close> is the check of the hashing library; \<open>login\<close>
  takes it as the argument \<open>verify_password\<close>.
\<close>

definition login ::
  "Settings \<Rightarrow> (string \<Rightarrow> string \<Rightarrow> bool) \<Rightarrow> database \<Rightarrow> datetime \<Rightarrow> LoginRequest \<Rightarrow>
   (error + TokenResponse) \<times> Cookie list \<times> database" where
  "login settings verify_password db now user_data =
     (case find (\<lambda>u. u_email u = lr_email user_data) (users db) of
        None \<Rightarrow> (Inl (HTTPException HTTP_401_UNAUTHORIZED ''Incorrect email or password''), [], db)
      | Some user \<Rightarrow>
          if \<not> verify_password (lr_password user_data) (u_hashed_password user)
          then (Inl (HTTPException HTTP_401_UNAUTHORIZED ''Incorrect email or password''), [], db)
          else if \<not> u_is_active user
          then (Inl (HTTPException HTTP_401_UNAUTHORIZED ''Account is inactive''), [], db)
          else
            let access = create_access_token settings now (subject (u_id user)) None;
                refresh = create_refresh_token settings now (subject (u_id user));
                refresh_token_obj =
                  \<lparr>rt_id = next_id (map rt_id (refresh_tokens db)),
                   rt_token = refresh,
                   rt_user_id = u_id user,
                   rt_expires_at = now + days 7,
                   rt_is_revoked = False,
                   rt_created_at = now,
                   rt_replaced_by_token = None\<rparr>
            in case add_refresh_token db refresh_token_obj of
                 Inl e \<Rightarrow> (Inl e, [], db)
               | Inr db1 \<Rightarrow>
                   (Inr \<lparr>access_token = access, token_type = ''bearer''\<rparr>,
                    [refresh_cookie refresh],
                    log_action db1 now (u_id user) ''USER_LOGIN'' None None None))"

text \<open>
  The first step of \<open>refresh_token\<close>, inside its \<open>try\<close>: any exception there, the
  \<open>ValueError\<close> of \<open>int\<close> included, becomes the same Unauthorized error.
\<close>

definition refresh_subject :: "Settings \<Rightarrow> datetime \<Rightarrow> token \<Rightarrow> error + int" where
  "refresh_subject settings now tok =
     (case verify_token settings now tok ''refresh'' of
        Inl e \<Rightarrow> Inl (HTTPException HTTP_401_UNAUTHORIZED ''Invalid refresh token'')
      | Inr payload \<Rightarrow>
          (case int_of_str (case c_sub payload of
                              None \<Rightarrow> ''0''
                            | Some s \<Rightarrow> if s = [] then ''0'' else s) of
             None \<Rightarrow> Inl (HTTPException HTTP_401_UNAUTHORIZED ''Invalid refresh token'')
           | Some user_id \<Rightarrow> Inr user_id))"

definition revoke :: "token \<Rightarrow> RefreshToken \<Rightarrow> RefreshToken" where
  "revoke new_refresh_token obj =
     obj\<lparr>rt_is_revoked := True, rt_replaced_by_token := Some new_refresh_token\<rparr>"

definition refresh_token ::
  "Settings \<Rightarrow> database \<Rightarrow> datetime \<Rightarrow> RefreshTokenRequest \<Rightarrow>
   (error + TokenResponse) \<times> Cookie list \<times> database" where
  "refresh_token settings db now refresh_data =
     (case refresh_subject settings now (rq_refresh_token refresh_data) of
        Inl e \<Rightarrow> (Inl e, [], db)
      | Inr user_id \<Rightarrow>
          (case find (\<lambda>r. rt_token r = rq_refresh_token refresh_data \<and> rt_user_id r = user_id \<and>
                            \<not> rt_is_revoked r \<and> rt_expires_at r > now) (refresh_tokens db) of
             None \<Rightarrow>
               (Inl (HTTPException HTTP_401_UNAUTHORIZED ''Invalid or expired refresh token''), [], db)
           | Some refresh_token_obj \<Rightarrow>
               let new_access_token = create_access_token settings now (subject user_id) None;
                   new_refresh_token = create_refresh_token settings now (subject user_id);
                   db1 = db\<lparr>refresh_tokens :=
                            map (\<lambda>r. if rt_id r = rt_id refresh_token_obj
                                      then revoke new_refresh_token r else r)
                                (refresh_tokens db)\<rparr>;
                   new_refresh_token_obj =
                     \<lparr>rt_id = next_id (map rt_id (refresh_tokens db)),
                      rt_token = new_refresh_token,
                      rt_user_id = user_id,
                      rt_expires_at = now + days 7,
                      rt_is_revoked = False,
                      rt_created_at = now,
                      rt_replaced_by_token = None\<rparr>
               in case add_refresh_token db1 new_refresh_token_obj of
                    Inl e \<Rightarrow> (Inl e, [], db)
                  | Inr db2 \<Rightarrow>
                      (Inr \<lparr>access_token = new_access_token, token_type = ''bearer''\<rparr>,
                       [refresh_cookie new_refresh_token],
                       db2)))"

section \<open>Task routes (\<open>api/tasks.py\<close>)\<close>

text \<open>
  The pattern match of the storage engine behind \<open>ilike\<close>: \<open>%\<close> stands for any run of
  characters, \<open>_\<close> for any one character, and letters match whatever their case.
\<close>

fun like :: "string \<Rightarrow> string \<Rightarrow> bool" where
  "like [] s = (s = [])"
| "like (p # ps) [] = (p = CHR ''%'' \<and> like ps [])"
| "like (p # ps) (c # cs) =
     (if p = CHR ''%'' then like ps (c # cs) \<or> like (p # ps) cs
      else if p = CHR ''_'' then like ps cs
      else p = c \<and> like ps cs)"

definition lower :: "string \<Rightarrow> string" where
  "lower s =
     map (\<lambda>c. case map_of (zip ''ABCDEFGHIJKLMNOPQRSTUVWXYZ'' ''abcdefghijklmnopqrstuvwxyz'') c of
                 None \<Rightarrow> c
               | Some l \<Rightarrow> l) s"

definition ilike :: "string \<Rightarrow> string \<Rightarrow> bool" where
  "ilike s pattern = like (lower pattern) (lower s)"

record TaskList =
  tl_tasks :: "Task list"
  tl_total :: nat
  tl_page :: int
  tl_size :: int

text \<open>
  \<open>list_tasks\<close>.  The bounds of \<open>page\<close> and \<open>size\<close> are declared on the parameters and
  checked before the body runs.  A filter is applied when its parameter is true in a
  condition: an id of zero and an empty search string are not.  A comparison with a
  column that is null holds for no row.
\<close>

definition list_tasks ::
  "database \<Rightarrow> int \<Rightarrow> int \<Rightarrow> TaskStatus option \<Rightarrow> TaskPriority option \<Rightarrow> int option \<Rightarrow>
   int option \<Rightarrow> datetime option \<Rightarrow> datetime option \<Rightarrow> string option \<Rightarrow> User \<Rightarrow>
   error + TaskList" where
  "list_tasks db page size' status priority assigned_user_id created_by due_date_from
     due_date_to search current_user =
     (if page < 1 \<or> size' < 1 \<or> size' > 100 then Inl RequestValidationError
      else
        let offset = (page - 1) * size';
            q0 = filter (\<lambda>t. \<not> t_is_deleted t) (tasks db);
            q1 = (if u_role current_user \<noteq> ADMIN
                  then filter (\<lambda>t. t_created_by t = u_id current_user \<or>
                                     t_assigned_user_id t = Some (u_id current_user)) q0
                  else q0);
            q2 = (case status of
                    Some s \<Rightarrow> filter (\<lambda>t. t_status t = s) q1
                  | None \<Rightarrow> q1);
            q3 = (case priority of
                    Some p \<Rightarrow> filter (\<lambda>t. t_priority t = p) q2
                  | None \<Rightarrow> q2);
            q4 = (case assigned_user_id of
                    Some a \<Rightarrow> if a \<noteq> 0 then filter (\<lambda>t. t_assigned_user_id t = Some a) q3 else q3
                  | None \<Rightarrow> q3);
            q5 = (case created_by of
                    Some c \<Rightarrow> if c \<noteq> 0 then filter (\<lambda>t. t_created_by t = c) q4 else q4
                  | None \<Rightarrow> q4);
            q6 = (case due_date_from of
                    Some d \<Rightarrow> filter (\<lambda>t. case t_due_date t of None \<Rightarrow> False | Some x \<Rightarrow> x \<ge> d) q5
                  | None \<Rightarrow> q5);
            q7 = (case due_date_to of
                    Some d \<Rightarrow> filter (\<lambda>t. case t_due_date t of None \<Rightarrow> False | Some x \<Rightarrow> x \<le> d) q6
                  | None \<Rightarrow> q6);
            q8 = (case search of
                    Some s \<Rightarrow>
                      if s \<noteq> []
                      then filter (\<lambda>t. ilike (t_title t) (''%'' @ s @ ''%'') \<or>
                                        (case t_description t of
                                           None \<Rightarrow> False
                                         | Some d \<Rightarrow> ilike d (''%'' @ s @ ''%''))) q7
                      else q7
                  | None \<Rightarrow> q7);
            q9 = sort_key (\<lambda>t. - t_updated_at t) q8
        in Inr \<lparr>tl_tasks = take (nat size') (drop (nat offset) q9),
                tl_total = length q9,
                tl_page = page,
                tl_size = size'\<rparr>)"

definition get_task :: "database \<Rightarrow> int \<Rightarrow> User \<Rightarrow> error + Task" where
  "get_task db task_id current_user =
     (case find (\<lambda>t. t_id t = task_id \<and> \<not> t_is_deleted t) (tasks db) of
        None \<Rightarrow> Inl (HTTPException HTTP_404_NOT_FOUND ''Task not found'')
      | Some task \<Rightarrow>
          if u_role current_user \<noteq> ADMIN \<and>
             t_created_by task \<noteq> u_id current_user \<and>
             t_assigned_user_id task \<noteq> Some (u_id current_user)
          then Inl (HTTPException HTTP_403_FORBIDDEN ''Not enough permissions to view this task'')
          else Inr task)"

text \<open>
  Committing a changed task writes it to its row, found by the primary key, and the
  engine refreshes \<open>updated_at\<close> of a row that is written; an object that was not
  changed is not written.  The engine checks the reference of a changed
  \<open>assigned_user_id\<close> and raises \<open>IntegrityError\<close> when no such user exists.
\<close>

definition write_task :: "database \<Rightarrow> datetime \<Rightarrow> Task \<Rightarrow> database" where
  "write_task db now task =
     db\<lparr>tasks := map (\<lambda>t. if t_id t = t_id task then task\<lparr>t_updated_at := now\<rparr> else t)
                       (tasks db)\<rparr>"

definition commit_task :: "database \<Rightarrow> datetime \<Rightarrow> Task \<Rightarrow> Task \<Rightarrow> error + database" where
  "commit_task db now loaded task =
     (if task = loaded then Inr db
      else if t_assigned_user_id task \<noteq> t_assigned_user_id loaded \<and>
              (case t_assigned_user_id task of
                 None \<Rightarrow> False
               | Some a \<Rightarrow> find (\<lambda>u. u_id u = a) (users db) = None)
      then Inl IntegrityError
      else Inr (write_task db now task))"

text \<open>\<open>db.refresh(task)\<close>: the object as its row now reads.\<close>

definition refreshed :: "datetime \<Rightarrow> Task \<Rightarrow> Task \<Rightarrow> Task" where
  "refreshed now loaded task = (if task = loaded then task else task\<lparr>t_updated_at := now\<rparr>)"

record TaskUpdate =
  tu_title :: "string option"
  tu_description :: "string option"
  tu_status :: "TaskStatus option"
  tu_priority :: "TaskPriority option"
  tu_due_date :: "datetime option"
  tu_assigned_user_id :: "int option"

definition snapshot :: "Task \<Rightarrow> (string \<times> json) list" where
  "snapshot task =
     [(''title'', JStr (t_title task)),
      (''description'', case t_description task of None \<Rightarrow> JNull | Some d \<Rightarrow> JStr d),
      (''status'', JStr (status_value (t_status task))),
      (''priority'', JStr (priority_value (t_priority task))),
      (''due_date'', case t_due_date task of None \<Rightarrow> JNull | Some d \<Rightarrow> JIsoformat d),
      (''assigned_user_id'', case t_assigned_user_id task of None \<Rightarrow> JNull | Some a \<Rightarrow> JInt a)]"

text \<open>
  The field assignments of \<open>update_task\<close>, in the order of the source.  The assignee
  is looked up only when the id given is not zero.
\<close>

definition update_fields :: "database \<Rightarrow> TaskUpdate \<Rightarrow> Task \<Rightarrow> error + Task" where
  "update_fields db task_update task =
     (let task1 = (case tu_title task_update of None \<Rightarrow> task | Some v \<Rightarrow> task\<lparr>t_title := v\<rparr>);
          task2 = (case tu_description task_update of
                     None \<Rightarrow> task1 | Some v \<Rightarrow> task1\<lparr>t_description := Some v\<rparr>);
          task3 = (case tu_status task_update of None \<Rightarrow> task2 | Some v \<Rightarrow> task2\<lparr>t_status := v\<rparr>);
          task4 = (case tu_priority task_update of
                     None \<Rightarrow> task3 | Some v \<Rightarrow> task3\<lparr>t_priority := v\<rparr>);
          task5 = (case tu_due_date task_update of
                     None \<Rightarrow> task4 | Some v \<Rightarrow> task4\<lparr>t_due_date := Some v\<rparr>)
      in case tu_assigned_user_id task_update of
           None \<Rightarrow> Inr task5
         | Some a \<Rightarrow>
             if a \<noteq> 0 \<and> find (\<lambda>u. u_id u = a) (users db) = None
             then Inl (HTTPException HTTP_400_BAD_REQUEST ''Assigned user not found'')
             else Inr (task5\<lparr>t_assigned_user_id := Some a\<rparr>))"

definition update_task ::
  "database \<Rightarrow> datetime \<Rightarrow> int \<Rightarrow> TaskUpdate \<Rightarrow> User \<Rightarrow> (error + Task) \<times> database" where
  "update_task db now task_id task_update current_user =
     (case find (\<lambda>t. t_id t = task_id \<and> \<not> t_is_deleted t) (tasks db) of
        None \<Rightarrow> (Inl (HTTPException HTTP_404_NOT_FOUND ''Task not found''), db)
      | Some task \<Rightarrow>
          if u_role current_user \<noteq> ADMIN \<and> t_created_by task \<noteq> u_id current_user
          then (Inl (HTTPException HTTP_403_FORBIDDEN ''Not enough permissions to update this task''), db)
          else
            (case update_fields db task_update task of
               Inl e \<Rightarrow> (Inl e, db)
             | Inr task' \<Rightarrow>
                 (case commit_task db now task task' of
                    Inl e \<Rightarrow> (Inl e, db)
                  | Inr db1 \<Rightarrow>
                      (Inr (refreshed now task task'),
                       log_action db1 now (u_id current_user) ''TASK_UPDATED'' (Some (t_id task))
                         (Some (snapshot task)) (Some (snapshot (refreshed now task task')))))))"

definition delete_task ::
  "database \<Rightarrow> datetime \<Rightarrow> int \<Rightarrow> User \<Rightarrow> (error + string) \<times> database" where
  "delete_task db now task_id current_user =
     (case find (\<lambda>t. t_id t = task_id \<and> \<not> t_is_deleted t) (tasks db) of
        None \<Rightarrow> (Inl (HTTPException HTTP_404_NOT_FOUND ''Task not found''), db)
      | Some task \<Rightarrow>
          if u_role current_user \<noteq> ADMIN \<and> t_created_by task \<noteq> u_id current_user
          then (Inl (HTTPException HTTP_403_FORBIDDEN ''Not enough permissions to delete this task''), db)
          else
            (case commit_task db now task (task\<lparr>t_is_deleted := True\<rparr>) of
               Inl e \<Rightarrow> (Inl e, db)
             | Inr db1 \<Rightarrow>
                 (Inr ''Task deleted successfully'',
                  log_action db1 now (u_id current_user) ''TASK_DELETED'' (Some (t_id task))
                    (Some [(''is_deleted'', JBool False)]) (Some [(''is_deleted'', JBool True)]))))"

record TaskAssignment =
  ta_user_id :: int

definition assign_task ::
  "database \<Rightarrow> datetime \<Rightarrow> int \<Rightarrow> TaskAssignment \<Rightarrow> User \<Rightarrow> (error + string) \<times> database" where
  "assign_task db now task_id assignment admin_user =
     (case find (\<lambda>t. t_id t = task_id \<and> \<not> t_is_deleted t) (tasks db) of
        None \<Rightarrow> (Inl (HTTPException HTTP_404_NOT_FOUND ''Task not found''), db)
      | Some task \<Rightarrow>
          (case find (\<lambda>u. u_id u = ta_user_id assignment) (users db) of
             None \<Rightarrow> (Inl (HTTPException HTTP_400_BAD_REQUEST ''User not found''), db)
           | Some user \<Rightarrow>
               let old_assigned_user_id = t_assigned_user_id task
               in case commit_task db now task
                         (task\<lparr>t_assigned_user_id := Some (ta_user_id assignment)\<rparr>) of
                    Inl e \<Rightarrow> (Inl e, db)
                  | Inr db1 \<Rightarrow>
                      (Inr (''Task assigned to user '' @ str (ta_user_id assignment)),
                       log_action db1 now (u_id admin_user) ''TASK_ASSIGNED'' (Some (t_id task))
                         (Some [(''assigned_user_id'',
                                 case old_assigned_user_id of None \<Rightarrow> JNull | Some a \<Rightarrow> JInt a)])
                         (Some [(''assigned_user_id'', JInt (ta_user_id assignment))]))))"

record AssignedTasks =
  at_user_id :: int
  at_username :: string
  at_tasks :: "Task list"

definition get_tasks_assigned_to_user :: "database \<Rightarrow> int \<Rightarrow> User \<Rightarrow> error + AssignedTasks" where
  "get_tasks_assigned_to_user db user_id admin_user =
     (case find (\<lambda>u. u_id u = user_id) (users db) of
        None \<Rightarrow> Inl (HTTPException HTTP_404_NOT_FOUND ''User not found'')
      | Some user \<Rightarrow>
          Inr \<lparr>at_user_id = user_id,
               at_username = u_username user,
               at_tasks = filter (\<lambda>t. t_assigned_user_id t = Some user_id \<and> \<not> t_is_deleted t)
                            (tasks db)\<rparr>)"

section \<open>Administration routes (\<open>api/admin.py\<close>)\<close>

record SystemStats =
  total_users :: nat
  active_users :: nat
  total_tasks :: nat
  tasks_by_status :: "(string \<times> nat) list"
  tasks_by_priority :: "(string \<times> nat) list"
  recent_activities :: nat

text \<open>The two dictionaries are filled by a loop over the members of each enumeration.\<close>

definition get_system_stats :: "database \<Rightarrow> datetime \<Rightarrow> User \<Rightarrow> SystemStats" where
  "get_system_stats db now admin_user =
     (let yesterday = now - days 1
      in \<lparr>total_users = length (users db),
          active_users = length (filter (\<lambda>u. u_is_active u = True) (users db)),
          total_tasks = length (filter (\<lambda>t. t_is_deleted t = False) (tasks db)),
          tasks_by_status =
            map (\<lambda>status. (status_value status,
                            length (filter (\<lambda>t. t_status t = status \<and> t_is_deleted t = False)
                                      (tasks db))))
                all_TaskStatus,
          tasks_by_priority =
            map (\<lambda>priority. (priority_value priority,
                              length (filter (\<lambda>t. t_priority t = priority \<and> t_is_deleted t = False)
                                        (tasks db))))
                all_TaskPriority,
          recent_activities = length (filter (\<lambda>l. al_timestamp l \<ge> yesterday) (audit_logs db))\<rparr>)"

record BulkAssignResult =
  ba_message :: string
  ba_updated_tasks :: nat
  ba_total_tasks :: nat

text \<open>
  The loop of \<open>bulk_assign_tasks\<close> over the tasks it has loaded: it carries the
  pending writes (as the database they lead to) and \<open>updated_count\<close>.
\<close>

fun bulk_assign_loop :: "datetime \<Rightarrow> int \<Rightarrow> Task list \<Rightarrow> database \<Rightarrow> nat \<Rightarrow> database \<times> nat" where
  "bulk_assign_loop now user_id [] db updated_count = (db, updated_count)"
| "bulk_assign_loop now user_id (task # rest) db updated_count =
     (if t_assigned_user_id task \<noteq> Some user_id
      then bulk_assign_loop now user_id rest
             (write_task db now (task\<lparr>t_assigned_user_id := Some user_id\<rparr>)) (updated_count + 1)
      else bulk_assign_loop now user_id rest db updated_count)"

definition bulk_assign_tasks ::
  "database \<Rightarrow> datetime \<Rightarrow> int list \<Rightarrow> int \<Rightarrow> User \<Rightarrow> (error + BulkAssignResult) \<times> database" where
  "bulk_assign_tasks db now task_ids user_id admin_user =
     (case find (\<lambda>u. u_id u = user_id) (users db) of
        None \<Rightarrow> (Inl (HTTPException HTTP_400_BAD_REQUEST ''User not found''), db)
      | Some user \<Rightarrow>
          let selected = filter (\<lambda>t. t_id t \<in> set task_ids \<and> t_is_deleted t = False) (tasks db)
          in if length selected \<noteq> length task_ids
             then (Inl (HTTPException HTTP_400_BAD_REQUEST ''Some tasks not found''), db)
             else
               (case bulk_assign_loop now user_id selected db 0 of
                  (db1, updated_count) \<Rightarrow>
                    (Inr \<lparr>ba_message = ''Bulk assigned '' @ str (int updated_count) @
                                         '' tasks to user '' @ str user_id,
                          ba_updated_tasks = updated_count,
                          ba_total_tasks = length selected\<rparr>,
                     db1)))"

section \<open>Example data\<close>

text \<open>A small database for evaluating the operations: four users and four tasks.\<close>

definition alice :: User where
  "alice = \<lparr>u_id = 1, u_email = ''alice@example.org'', u_username = ''alice'',
             u_hashed_password = ''hash-a'', u_role = USER, u_is_active = True,
             u_created_at = 0, u_updated_at = 0\<rparr>"

definition bob :: User where
  "bob = \<lparr>u_id = 2, u_email = ''bob@example.org'', u_username = ''bob'',
           u_hashed_password = ''hash-b'', u_role = USER, u_is_active = True,
           u_created_at = 0, u_updated_at = 0\<rparr>"

definition carol :: User where
  "carol = \<lparr>u_id = 3, u_email = ''carol@example.org'', u_username = ''carol'',
             u_hashed_password = ''hash-c'', u_role = ADMIN, u_is_active = True,
             u_created_at = 0, u_updated_at = 0\<rparr>"

definition dave :: User where
  "dave = \<lparr>u_id = 4, u_email = ''dave@example.org'', u_username = ''dave'',
            u_hashed_password = ''hash-d'', u_role = USER, u_is_active = False,
            u_created_at = 0, u_updated_at = 0\<rparr>"

definition task1 :: Task where
  "task1 = \<lparr>t_id = 1, t_title = ''Write report'', t_description = Some ''quarterly'',
             t_status = TODO, t_priority = MEDIUM, t_due_date = Some 500,
             t_assigned_user_id = Some 2, t_created_by = 1, t_created_at = 10,
             t_updated_at = 10, t_is_deleted = False\<rparr>"

definition task2 :: Task where
  "task2 = \<lparr>t_id = 2, t_title = ''Review report'', t_description = None,
             t_status = TODO, t_priority = MEDIUM, t_due_date = None,
             t_assigned_user_id = None, t_created_by = 3, t_created_at = 20,
             t_updated_at = 20, t_is_deleted = False\<rparr>"

definition task3 :: Task where
  "task3 = \<lparr>t_id = 3, t_title = ''Old report'', t_description = None,
             t_status = DONE, t_priority = LOW, t_due_date = None,
             t_assigned_user_id = Some 1, t_created_by = 1, t_created_at = 30,
             t_updated_at = 30, t_is_deleted = True\<rparr>"

definition task4 :: Task where
  "task4 = \<lparr>t_id = 4, t_title = ''Ship it'', t_description = None,
             t_status = IN_PROGRESS, t_priority = URGENT, t_due_date = None,
             t_assigned_user_id = Some 1, t_created_by = 3, t_created_at = 40,
             t_updated_at = 40, t_is_deleted = False\<rparr>"

definition db0 :: database where
  "db0 = \<lparr>users = [alice, bob, carol, dave], tasks = [task1, task2, task3, task4],
           refresh_tokens = [], audit_logs = []\<rparr>"

text \<open>
  A reading of integers for the key column, for the examples: blanks around the number
  are skipped, a sign may precede the decimal digits, and the value must lie in the
  range of a 32-bit integer.
\<close>

definition is_space :: "char \<Rightarrow> bool" where
  "is_space c = (c \<in> set [CHR '' '', CHR 0x09, CHR 0x0A, CHR 0x0B, CHR 0x0C, CHR 0x0D])"

definition strip :: "string \<Rightarrow> string" where
  "strip s = rev (dropWhile is_space (rev (dropWhile is_space s)))"

definition int4_of_str :: "string \<Rightarrow> int option" where
  "int4_of_str s =
     (case int_of_str (strip s) of
        None \<Rightarrow> None
      | Some n \<Rightarrow> if - 2147483648 \<le> n \<and> n \<le> 2147483647 then Some n else None)"

text \<open>A stand-in for the password check of the hashing library.\<close>

definition check_password :: "string \<Rightarrow> string \<Rightarrow> bool" where
  "check_password plain hashed = (hashed = ''hash-'' @ plain)"

text \<open>A token signed with the configured key, of the given subject, expiry and type.\<close>

definition signed :: "string \<Rightarrow> datetime \<Rightarrow> string \<Rightarrow> token" where
  "signed sub e ty =
     JWT (jwt_secret_key default_settings) (jwt_algorithm default_settings)
       \<lparr>c_sub = Some sub, c_exp = Some e, c_type = Some ty\<rparr>"

text \<open>
  The refresh token a login of alice at time 1000 stores, and the database holding
  it before (\<open>db_login\<close>) and after (\<open>db_rotated\<close>) it is presented for a refresh at time 2000.
\<close>

definition alice_refresh :: RefreshToken where
  "alice_refresh =
     \<lparr>rt_id = 1, rt_token = signed ''1'' 605800 ''refresh'', rt_user_id = 1,
      rt_expires_at = 605800, rt_is_revoked = False, rt_created_at = 1000,
      rt_replaced_by_token = None\<rparr>"

definition db_login :: database where
  "db_login = db0\<lparr>refresh_tokens := [alice_refresh]\<rparr>"

definition db_rotated :: database where
  "db_rotated = db0\<lparr>refresh_tokens :=
               [alice_refresh\<lparr>rt_is_revoked := True,
                              rt_replaced_by_token := Some (signed ''1'' 606800 ''refresh'')\<rparr>,
                \<lparr>rt_id = 2, rt_token = signed ''1'' 606800 ''refresh'', rt_user_id = 1,
                 rt_expires_at = 606800, rt_is_revoked = False, rt_created_at = 2000,
                 rt_replaced_by_token = None\<rparr>]\<rparr>"

section \<open>Properties\<close>

lemma find_Some_set: "find P xs = Some x \<Longrightarrow> x \<in> set xs \<and> P x"
  by (induction xs) (auto split: if_splits)


subsection \<open>Token verification\<close>



subsection \<open>The active-account guard\<close>





subsection \<open>Login\<close>

text \<open>
  C5.  When no user has the email given, or the password check fails for the user
  found, or that user is inactive, \<open>login\<close> raises Unauthorized, sets no cookie and
  leaves the database as it was: no token is issued and no RefreshToken or AuditLog
  row is created.  This holds for every password check.
\<close>

theorem login_failure_unchanged:
  "(case find (\<lambda>u. u_email u = lr_email user_data) (users db) of
      None \<Rightarrow> True
    | Some user \<Rightarrow> \<not> verify_password (lr_password user_data) (u_hashed_password user) \<or>
                   \<not> u_is_active user) \<longrightarrow>
   (\<exists>d. login settings verify_password db now user_data =
           (Inl (HTTPException HTTP_401_UNAUTHORIZED d), [], db))"
  by (auto simp: login_def split: option.splits)

text \<open>The three failing logins on the example database: unknown email, wrong password,
  inactive account.\<close>

theorem login_failure_unchanged_witness:
  "find (\<lambda>u. u_email u = ''nobody@example.org'') (users db0) = None \<and>
   login default_settings check_password db0 100
     \<lparr>lr_email = ''nobody@example.org'', lr_password = ''a''\<rparr> =
     (Inl (HTTPException HTTP_401_UNAUTHORIZED ''Incorrect email or password''), [], db0) \<and>
   find (\<lambda>u. u_email u = ''alice@example.org'') (users db0) = Some alice \<and>
   \<not> check_password ''wrong'' (u_hashed_password alice) \<and>
   login default_settings check_password db0 100
     \<lparr>lr_email = ''alice@example.org'', lr_password = ''wrong''\<rparr> =
     (Inl (HTTPException HTTP_401_UNAUTHORIZED ''Incorrect email or password''), [], db0) \<and>
   find (\<lambda>u. u_email u = ''dave@example.org'') (users db0) = Some dave \<and>
   check_password ''d'' (u_hashed_password dave) \<and> \<not> u_is_active dave \<and>
   login default_settings check_password db0 100
     \<lparr>lr_email = ''dave@example.org'', lr_password = ''d''\<rparr> =
     (Inl (HTTPException HTTP_401_UNAUTHORIZED ''Account is inactive''), [], db0)"
proof -
  have f1: "find (\<lambda>u. u_email u = ''nobody@example.org'') (users db0) = None"
    by (simp add: db0_def alice_def bob_def carol_def dave_def)
  have f2: "find (\<lambda>u. u_email u = ''alice@example.org'') (users db0) = Some alice"
    by (simp add: db0_def alice_def bob_def carol_def dave_def)
  have f3: "find (\<lambda>u. u_email u = ''dave@example.org'') (users db0) = Some dave"
    by (simp add: db0_def alice_def bob_def carol_def dave_def)
  have p2: "\<not> check_password ''wrong'' (u_hashed_password alice)"
    by (simp add: check_password_def alice_def)
  have p3: "check_password ''d'' (u_hashed_password dave)" "\<not> u_is_active dave"
    by (simp_all add: check_password_def dave_def)
  have l1: "\<exists>d. login default_settings check_password db0 100
     \<lparr>lr_email = ''nobody@example.org'', lr_password = ''a''\<rparr> =
     (Inl (HTTPException HTTP_401_UNAUTHORIZED d), [], db0)"
    using login_failure_unchanged[where user_data = "\<lparr>lr_email = ''nobody@example.org'', lr_password = ''a''\<rparr>"
       and db = db0 and verify_password = check_password and settings = default_settings and now = 100] f1 by simp
  have l2: "\<exists>d. login default_settings check_password db0 100
     \<lparr>lr_email = ''alice@example.org'', lr_password = ''wrong''\<rparr> =
     (Inl (HTTPException HTTP_401_UNAUTHORIZED d), [], db0)"
    using login_failure_unchanged[where user_data = "\<lparr>lr_email = ''alice@example.org'', lr_password = ''wrong''\<rparr>"
       and db = db0 and verify_password = check_password and settings = default_settings and now = 100] f2 p2 by simp
  have l3: "\<exists>d. login default_settings check_password db0 100
     \<lparr>lr_email = ''dave@example.org'', lr_password = ''d''\<rparr> =
     (Inl (HTTPException HTTP_401_UNAUTHORIZED d), [], db0)"
    using login_failure_unchanged[where user_data = "\<lparr>lr_email = ''dave@example.org'', lr_password = ''d''\<rparr>"
       and db = db0 and verify_password = check_password and settings = default_settings and now = 100] f3 p3 by simp
  show ?thesis
    using f1 f2 f3 p2 p3 l1 l2 l3 by (auto simp: login_def)
qed

lemma str_1: "str 1 = ''1''"
  by (simp add: str_def str_nat.simps digit_char_def)

text \<open>
  What a successful \<open>login\<close> stores and sets, for every configuration: one new row,
  not revoked, that expires seven days after issuance, and one cookie with a max-age
  of 604800 seconds.
\<close>

lemma login_success:
  assumes "login settings verify_password db now user_data = (Inr response, cookies, db')"
  shows "\<exists>user.
           find (\<lambda>u. u_email u = lr_email user_data) (users db) = Some user \<and>
           refresh_tokens db' =
             refresh_tokens db @
             [\<lparr>rt_id = next_id (map rt_id (refresh_tokens db)),
               rt_token = create_refresh_token settings now (subject (u_id user)),
               rt_user_id = u_id user, rt_expires_at = now + days 7, rt_is_revoked = False,
               rt_created_at = now, rt_replaced_by_token = None\<rparr>] \<and>
           cookies = [refresh_cookie (create_refresh_token settings now (subject (u_id user)))] \<and>
           map ck_max_age cookies = [604800]"
  using assms
  by (auto simp: login_def Let_def add_refresh_token_def log_action_def refresh_cookie_def
           split: option.splits if_splits)

text \<open>
  C7.  The row \<open>login\<close> stores expires a fixed seven days after issuance, whatever
  \<open>jwt_refresh_token_expire_days\<close> is, while the \<open>exp\<close> claim of the very token
  it stores follows the setting.  With the setting at 30 days, a login at time 1000
  stores a row that expires at \<open>1000 + days 7 = 605800\<close> for a token whose claim
  expires at \<open>1000 + days 30 = 2593000\<close>.
\<close>

theorem login_refresh_expiry_ignores_setting:
  "login (default_settings\<lparr>jwt_refresh_token_expire_days := 30\<rparr>) check_password db0 1000
     \<lparr>lr_email = ''alice@example.org'', lr_password = ''a''\<rparr> =
   (Inr \<lparr>access_token = JWT (jwt_secret_key default_settings) ''HS256''
                            \<lparr>c_sub = Some ''1'', c_exp = Some 1900, c_type = Some ''access''\<rparr>,
         token_type = ''bearer''\<rparr>,
    [\<lparr>ck_key = ''refresh_token'',
      ck_value = JWT (jwt_secret_key default_settings) ''HS256''
                   \<lparr>c_sub = Some ''1'', c_exp = Some 2593000, c_type = Some ''refresh''\<rparr>,
      ck_httponly = True, ck_secure = True, ck_samesite = ''strict'', ck_max_age = 604800\<rparr>],
    db0\<lparr>refresh_tokens :=
          [\<lparr>rt_id = 1,
            rt_token = JWT (jwt_secret_key default_settings) ''HS256''
                         \<lparr>c_sub = Some ''1'', c_exp = Some 2593000, c_type = Some ''refresh''\<rparr>,
            rt_user_id = 1, rt_expires_at = 605800, rt_is_revoked = False,
            rt_created_at = 1000, rt_replaced_by_token = None\<rparr>],
        audit_logs :=
          [\<lparr>al_id = 1, al_user_id = 1, al_task_id = None, al_action = ''USER_LOGIN'',
            al_old_values = None, al_new_values = None, al_timestamp = 1000\<rparr>]\<rparr>) \<and>
   (1000::int) + days 30 = 2593000 \<and> (1000::int) + days 7 = 605800"
  by (simp add: login_def db0_def alice_def bob_def carol_def dave_def check_password_def
        create_access_token_def create_refresh_token_def jwt_encode_def subject_def str_1
        default_settings_def add_refresh_token_def next_id_def refresh_cookie_def log_action_def
        days_def minutes_def Let_def)


subsection \<open>System statistics\<close>

lemma count_by_status:
  "length (filter (\<lambda>t. t_status t = TODO \<and> t_is_deleted t = False) ts) +
   (length (filter (\<lambda>t. t_status t = IN_PROGRESS \<and> t_is_deleted t = False) ts) +
    length (filter (\<lambda>t. t_status t = DONE \<and> t_is_deleted t = False) ts)) =
   length (filter (\<lambda>t. t_is_deleted t = False) ts)"
proof (induction ts)
  case Nil
  show ?case by simp
next
  case (Cons t ts)
  then show ?case by (cases "t_status t") auto
qed

lemma count_by_priority:
  "length (filter (\<lambda>t. t_priority t = LOW \<and> t_is_deleted t = False) ts) +
   (length (filter (\<lambda>t. t_priority t = MEDIUM \<and> t_is_deleted t = False) ts) +
    (length (filter (\<lambda>t. t_priority t = HIGH \<and> t_is_deleted t = False) ts) +
     length (filter (\<lambda>t. t_priority t = URGENT \<and> t_is_deleted t = False) ts))) =
   length (filter (\<lambda>t. t_is_deleted t = False) ts)"
proof (induction ts)
  case Nil
  show ?case by simp
next
  case (Cons t ts)
  then show ?case by (cases "t_priority t") auto
qed

text \<open>
  C8.  For every database, \<open>get_system_stats\<close> counts all users, the users with the
  active flag, and the tasks that are not deleted; \<open>tasks_by_status\<close> has exactly
  the three status values as keys and \<open>tasks_by_priority\<close> exactly the four
  priority values, each mapped to the number of non-deleted tasks of that value; the
  counts of each dictionary add up to \<open>total_tasks\<close>, so that every non-deleted task
  is counted under one key and one only.
\<close>

theorem system_stats_counts:
  "total_users (get_system_stats db now admin_user) = length (users db) \<and>
   active_users (get_system_stats db now admin_user) = length (filter u_is_active (users db)) \<and>
   total_tasks (get_system_stats db now admin_user) =
     length (filter (\<lambda>t. \<not> t_is_deleted t) (tasks db)) \<and>
   map fst (tasks_by_status (get_system_stats db now admin_user)) =
     [''todo'', ''in_progress'', ''done''] \<and>
   map fst (tasks_by_priority (get_system_stats db now admin_user)) =
     [''low'', ''medium'', ''high'', ''urgent''] \<and>
   (\<forall>s. map_of (tasks_by_status (get_system_stats db now admin_user)) (status_value s) =
          Some (length (filter (\<lambda>t. \<not> t_is_deleted t \<and> t_status t = s) (tasks db)))) \<and>
   (\<forall>p. map_of (tasks_by_priority (get_system_stats db now admin_user)) (priority_value p) =
          Some (length (filter (\<lambda>t. \<not> t_is_deleted t \<and> t_priority t = p) (tasks db)))) \<and>
   sum_list (map snd (tasks_by_status (get_system_stats db now admin_user))) =
     total_tasks (get_system_stats db now admin_user) \<and>
   sum_list (map snd (tasks_by_priority (get_system_stats db now admin_user))) =
     total_tasks (get_system_stats db now admin_user)"
proof (intro conjI allI)
  show "total_users (get_system_stats db now admin_user) = length (users db)"
    by (simp add: get_system_stats_def)
  show "active_users (get_system_stats db now admin_user) = length (filter u_is_active (users db))"
    by (simp add: get_system_stats_def)
  show "total_tasks (get_system_stats db now admin_user) =
     length (filter (\<lambda>t. \<not> t_is_deleted t) (tasks db))"
    by (simp add: get_system_stats_def)
  show "map fst (tasks_by_status (get_system_stats db now admin_user)) =
     [''todo'', ''in_progress'', ''done'']"
    by (simp add: get_system_stats_def all_TaskStatus_def)
  show "map fst (tasks_by_priority (get_system_stats db now admin_user)) =
     [''low'', ''medium'', ''high'', ''urgent'']"
    by (simp add: get_system_stats_def all_TaskPriority_def)
  show "map_of (tasks_by_status (get_system_stats db now admin_user)) (status_value s) =
          Some (length (filter (\<lambda>t. \<not> t_is_deleted t \<and> t_status t = s) (tasks db)))" for s
    by (cases s) (simp_all add: get_system_stats_def all_TaskStatus_def conj_commute)
  show "map_of (tasks_by_priority (get_system_stats db now admin_user)) (priority_value p) =
          Some (length (filter (\<lambda>t. \<not> t_is_deleted t \<and> t_priority t = p) (tasks db)))" for p
    by (cases p) (simp_all add: get_system_stats_def all_TaskPriority_def conj_commute)
  show "sum_list (map snd (tasks_by_status (get_system_stats db now admin_user))) =
     total_tasks (get_system_stats db now admin_user)"
    using count_by_status[of "tasks db"]
    by (simp add: get_system_stats_def all_TaskStatus_def)
  show "sum_list (map snd (tasks_by_priority (get_system_stats db now admin_user))) =
     total_tasks (get_system_stats db now admin_user)"
    using count_by_priority[of "tasks db"]
    by (simp add: get_system_stats_def all_TaskPriority_def)
qed

subsection \<open>Listing tasks\<close>

lemma list_tasks_subset:
  assumes "list_tasks db page size' status priority assigned_user_id created_by due_date_from
             due_date_to search current_user = Inr result"
  shows "set (tl_tasks result) \<subseteq>
           {t \<in> set (tasks db). \<not> t_is_deleted t \<and>
              (u_role current_user \<noteq> ADMIN \<longrightarrow>
                 t_created_by t = u_id current_user \<or>
                 t_assigned_user_id t = Some (u_id current_user))}"
proof -
  have valid: "\<not> (page < 1 \<or> size' < 1 \<or> size' > 100)"
    using assms by (auto simp: list_tasks_def)
  define q1 where "q1 = (if u_role current_user \<noteq> ADMIN
                  then filter (\<lambda>t. t_created_by t = u_id current_user \<or>
                                     t_assigned_user_id t = Some (u_id current_user))
                         (filter (\<lambda>t. \<not> t_is_deleted t) (tasks db))
                  else filter (\<lambda>t. \<not> t_is_deleted t) (tasks db))"
  define q2 where "q2 = (case status of Some s \<Rightarrow> filter (\<lambda>t. t_status t = s) q1 | None \<Rightarrow> q1)"
  define q3 where "q3 = (case priority of Some p \<Rightarrow> filter (\<lambda>t. t_priority t = p) q2 | None \<Rightarrow> q2)"
  define q4 where "q4 = (case assigned_user_id of
                    Some a \<Rightarrow> if a \<noteq> 0 then filter (\<lambda>t. t_assigned_user_id t = Some a) q3 else q3
                  | None \<Rightarrow> q3)"
  define q5 where "q5 = (case created_by of
                    Some c \<Rightarrow> if c \<noteq> 0 then filter (\<lambda>t. t_created_by t = c) q4 else q4
                  | None \<Rightarrow> q4)"
  define q6 where "q6 = (case due_date_from of
                    Some d \<Rightarrow> filter (\<lambda>t. case t_due_date t of None \<Rightarrow> False | Some x \<Rightarrow> x \<ge> d) q5
                  | None \<Rightarrow> q5)"
  define q7 where "q7 = (case due_date_to of
                    Some d \<Rightarrow> filter (\<lambda>t. case t_due_date t of None \<Rightarrow> False | Some x \<Rightarrow> x \<le> d) q6
                  | None \<Rightarrow> q6)"
  define q8 where "q8 = (case search of
                    Some s \<Rightarrow>
                      if s \<noteq> []
                      then filter (\<lambda>t. ilike (t_title t) (''%'' @ s @ ''%'') \<or>
                                        (case t_description t of
                                           None \<Rightarrow> False
                                         | Some d \<Rightarrow> ilike d (''%'' @ s @ ''%''))) q7
                      else q7
                  | None \<Rightarrow> q7)"
  have r: "tl_tasks result = take (nat size') (drop (nat ((page - 1) * size')) (sort_key (\<lambda>t. - t_updated_at t) q8))"
    using assms valid
    unfolding list_tasks_def Let_def q1_def q2_def q3_def q4_def q5_def q6_def q7_def q8_def
    by auto
  have s1: "set q1 \<subseteq> {t \<in> set (tasks db). \<not> t_is_deleted t \<and>
              (u_role current_user \<noteq> ADMIN \<longrightarrow>
                 t_created_by t = u_id current_user \<or>
                 t_assigned_user_id t = Some (u_id current_user))}"
    by (auto simp: q1_def)
  have s2: "set q2 \<subseteq> set q1" by (auto simp: q2_def split: option.splits)
  have s3: "set q3 \<subseteq> set q2" by (auto simp: q3_def split: option.splits)
  have s4: "set q4 \<subseteq> set q3" by (auto simp: q4_def split: option.splits)
  have s5: "set q5 \<subseteq> set q4" by (auto simp: q5_def split: option.splits)
  have s6: "set q6 \<subseteq> set q5" by (auto simp: q6_def split: option.splits)
  have s7: "set q7 \<subseteq> set q6" by (auto simp: q7_def split: option.splits)
  have s8: "set q8 \<subseteq> set q7" by (auto simp: q8_def split: option.splits)
  have "set (tl_tasks result) \<subseteq> set q8"
    unfolding r using set_take_subset set_drop_subset
    by (metis (no_types, lifting) order_trans set_sort)
  then show ?thesis
    using s1 s2 s3 s4 s5 s6 s7 s8 by blast
qed


text \<open>
  C2.  When the caller is not an administrator, every task \<open>list_tasks\<close> returns,
  under every combination of filters and every page, is a row of the table that the
  caller created or is assigned to.
\<close>

theorem list_tasks_non_admin_visibility:
  assumes "u_role current_user \<noteq> ADMIN"
      and "list_tasks db page size' status priority assigned_user_id created_by due_date_from
             due_date_to search current_user = Inr result"
  shows "\<forall>t \<in> set (tl_tasks result).
           t \<in> set (tasks db) \<and>
           (t_created_by t = u_id current_user \<or> t_assigned_user_id t = Some (u_id current_user))"
  using list_tasks_subset[OF assms(2)] assms(1) by blast

text \<open>
  Bob lists the tasks of status \<open>todo\<close>: he gets the one he is assigned to, and not
  the other task of that status, which carol created and nobody is assigned to.
\<close>

lemma list_tasks_bob:
  "list_tasks db0 1 10 (Some TODO) None None None None None None bob =
     Inr \<lparr>tl_tasks = [task1], tl_total = 1, tl_page = 1, tl_size = 10\<rparr>"
  by (simp add: list_tasks_def db0_def bob_def task1_def task2_def task3_def task4_def)

theorem list_tasks_non_admin_visibility_witness:
  "u_role bob \<noteq> ADMIN \<and>
   list_tasks db0 1 10 (Some TODO) None None None None None None bob =
     Inr \<lparr>tl_tasks = [task1], tl_total = 1, tl_page = 1, tl_size = 10\<rparr> \<and>
   task2 \<in> set (tasks db0) \<and> t_status task2 = TODO \<and> \<not> t_is_deleted task2 \<and>
   t_created_by task2 \<noteq> u_id bob \<and> t_assigned_user_id task2 \<noteq> Some (u_id bob) \<and>
   task2 \<notin> set [task1] \<and> task1 \<in> set (tasks db0) \<and>
   (t_created_by task1 = u_id bob \<or> t_assigned_user_id task1 = Some (u_id bob))"
proof -
  have r: "u_role bob \<noteq> ADMIN" by (simp add: bob_def)
  have "task2 \<in> set (tasks db0)" "t_status task2 = TODO" "\<not> t_is_deleted task2"
       "t_created_by task2 \<noteq> u_id bob" "t_assigned_user_id task2 \<noteq> Some (u_id bob)"
       "task2 \<notin> set [task1]"
    by (simp_all add: db0_def task1_def task2_def bob_def)
  then show ?thesis
    using list_tasks_non_admin_visibility[OF r list_tasks_bob] r list_tasks_bob by simp
qed

subsection \<open>Soft-deleted tasks\<close>

lemma find_deleted_None:
  assumes "t \<in> set ts" "t_is_deleted t" "distinct (map t_id ts)"
  shows "find (\<lambda>x. t_id x = t_id t \<and> \<not> t_is_deleted x) ts = None"
proof -
  have "x = t" if "x \<in> set ts" "t_id x = t_id t" for x
    using that assms(1,3) by (meson distinct_map inj_onD)
  then show ?thesis
    using assms(2) by (auto simp: find_None_iff)
qed

lemma guard_alice:
  "depends_current_active_user default_settings int4_of_str db0 100 (signed ''1'' 150 ''access'') = Inr alice"
  by (simp add: depends_current_active_user_def get_current_active_user_def
        get_current_user_def verify_token_def signed_def db0_def alice_def
        int4_of_str_def strip_def is_space_def int_of_str_def int_of_digits_def digit_val_def)

lemma guard_carol:
  "depends_admin_user default_settings int4_of_str db0 100 (signed ''3'' 150 ''access'') = Inr carol"
  by (simp add: depends_admin_user_def get_admin_user_def
        depends_current_active_user_def get_current_active_user_def
        get_current_user_def verify_token_def signed_def db0_def alice_def bob_def carol_def
        int4_of_str_def strip_def is_space_def int_of_str_def int_of_digits_def digit_val_def)

text \<open>
  C3, as the claim states it, fails: a soft-deleted task exists, and the authenticated
  caller alice, who is not an administrator, posts an assignment of it; the
  administrator guard of the route answers Forbidden, not Not Found.
\<close>

theorem soft_deleted_assign_counterexample:
  "task3 \<in> set (tasks db0) \<and> t_is_deleted task3 \<and>
   depends_current_active_user default_settings int4_of_str db0 100 (signed ''1'' 150 ''access'') = Inr alice \<and>
   with_admin_user default_settings int4_of_str db0 100 (signed ''1'' 150 ''access'')
     (assign_task db0 100 (t_id task3) \<lparr>ta_user_id = 2\<rparr>) =
     (Inl (HTTPException HTTP_403_FORBIDDEN ''Not enough permissions''), db0)"
proof -
  have "depends_admin_user default_settings int4_of_str db0 100 (signed ''1'' 150 ''access'') =
          Inl (HTTPException HTTP_403_FORBIDDEN ''Not enough permissions'')"
    by (simp add: depends_admin_user_def guard_alice get_admin_user_def alice_def)
  moreover have "task3 \<in> set (tasks db0)" "t_is_deleted task3"
    by (simp_all add: db0_def task3_def)
  ultimately show ?thesis
    by (simp add: with_admin_user_def guard_alice)
qed

text \<open>
  C3, amended.  Let a task of the table be soft-deleted (ids being the primary key).
  Whoever the current user is, the task is in no result of \<open>list_tasks\<close> or
  \<open>get_tasks_assigned_to_user\<close>, and \<open>get_task\<close>, \<open>update_task\<close> and
  \<open>delete_task\<close> on its id fail with Not Found.  The assignment route fails with
  Not Found for every caller its administrator guard admits, and with the error of
  the guard for every other caller.  None of these requests changes the database, so
  the row remains in storage.
\<close>

theorem soft_deleted_invisible:
  assumes "t \<in> set (tasks db)" and "t_is_deleted t" and "distinct (map t_id (tasks db))"
  shows "(\<forall>page size' status priority assigned_user_id created_by due_date_from due_date_to
            search result.
            list_tasks db page size' status priority assigned_user_id created_by due_date_from
              due_date_to search current_user = Inr result \<longrightarrow> t \<notin> set (tl_tasks result)) \<and>
         (\<forall>user_id result.
            get_tasks_assigned_to_user db user_id current_user = Inr result \<longrightarrow>
            t \<notin> set (at_tasks result)) \<and>
         get_task db (t_id t) current_user = Inl (HTTPException HTTP_404_NOT_FOUND ''Task not found'') \<and>
         update_task db now (t_id t) task_update current_user =
           (Inl (HTTPException HTTP_404_NOT_FOUND ''Task not found''), db) \<and>
         delete_task db now (t_id t) current_user =
           (Inl (HTTPException HTTP_404_NOT_FOUND ''Task not found''), db) \<and>
         with_admin_user settings int4in db now credentials (assign_task db now (t_id t) assignment) =
           (case depends_admin_user settings int4in db now credentials of
              Inl e \<Rightarrow> (Inl e, db)
            | Inr admin_user \<Rightarrow> (Inl (HTTPException HTTP_404_NOT_FOUND ''Task not found''), db)) \<and>
         t \<in> set (tasks (snd (update_task db now (t_id t) task_update current_user))) \<and>
         t \<in> set (tasks (snd (delete_task db now (t_id t) current_user))) \<and>
         t \<in> set (tasks (snd (with_admin_user settings int4in db now credentials
                                  (assign_task db now (t_id t) assignment))))"
proof -
  note f = find_deleted_None[OF assms]
  have l: "t \<notin> set (tl_tasks result)"
    if "list_tasks db page size' status priority assigned_user_id created_by due_date_from
              due_date_to search current_user = Inr result"
    for page size' status priority assigned_user_id created_by due_date_from due_date_to
            search result
    using list_tasks_subset[OF that] assms(2) by blast
  have a: "t \<notin> set (at_tasks result)"
    if "get_tasks_assigned_to_user db user_id current_user = Inr result" for user_id result
    using that assms(2) by (auto simp: get_tasks_assigned_to_user_def split: option.splits)
  have g: "get_task db (t_id t) current_user = Inl (HTTPException HTTP_404_NOT_FOUND ''Task not found'')"
    by (simp add: get_task_def f)
  have u: "update_task db now (t_id t) task_update current_user =
           (Inl (HTTPException HTTP_404_NOT_FOUND ''Task not found''), db)"
    by (simp add: update_task_def f)
  have d: "delete_task db now (t_id t) current_user =
           (Inl (HTTPException HTTP_404_NOT_FOUND ''Task not found''), db)"
    by (simp add: delete_task_def f)
  have s: "with_admin_user settings int4in db now credentials (assign_task db now (t_id t) assignment) =
           (case depends_admin_user settings int4in db now credentials of
              Inl e \<Rightarrow> (Inl e, db)
            | Inr admin_user \<Rightarrow> (Inl (HTTPException HTTP_404_NOT_FOUND ''Task not found''), db))"
    by (simp add: with_admin_user_def assign_task_def f split: sum.splits)
  have s': "t \<in> set (tasks (snd (with_admin_user settings int4in db now credentials
                                  (assign_task db now (t_id t) assignment))))"
    unfolding s using assms(1) by (simp split: sum.splits)
  show ?thesis
    unfolding u d using l a g s s' assms(1) by simp
qed

text \<open>Task 3 of the example database is soft-deleted; carol is an administrator.\<close>

theorem soft_deleted_invisible_witness:
  "task3 \<in> set (tasks db0) \<and> t_is_deleted task3 \<and> distinct (map t_id (tasks db0)) \<and>
   get_task db0 3 alice = Inl (HTTPException HTTP_404_NOT_FOUND ''Task not found'') \<and>
   delete_task db0 100 3 alice = (Inl (HTTPException HTTP_404_NOT_FOUND ''Task not found''), db0) \<and>
   with_admin_user default_settings int4_of_str db0 100 (signed ''3'' 150 ''access'')
     (assign_task db0 100 3 \<lparr>ta_user_id = 2\<rparr>) =
     (Inl (HTTPException HTTP_404_NOT_FOUND ''Task not found''), db0) \<and>
   get_tasks_assigned_to_user db0 1 carol =
     Inr \<lparr>at_user_id = 1, at_username = ''alice'', at_tasks = [task4]\<rparr> \<and>
   task3 \<notin> set [task4]"
proof -
  have h: "task3 \<in> set (tasks db0)" "t_is_deleted task3" "distinct (map t_id (tasks db0))"
    by (simp_all add: db0_def task1_def task2_def task3_def task4_def)
  have i: "t_id task3 = 3" by (simp add: task3_def)
  have a: "get_tasks_assigned_to_user db0 1 carol =
     Inr \<lparr>at_user_id = 1, at_username = ''alice'', at_tasks = [task4]\<rparr>"
    by (simp add: get_tasks_assigned_to_user_def db0_def alice_def task1_def task2_def task3_def
          task4_def)
  have n: "task3 \<notin> set [task4]"
    by (simp add: task3_def task4_def)
  show ?thesis
    using soft_deleted_invisible
            [OF h, of alice 100
               "\<lparr>tu_title = Some ''New'', tu_description = None, tu_status = None,
                 tu_priority = None, tu_due_date = None, tu_assigned_user_id = None\<rparr>"
               default_settings int4_of_str "signed ''3'' 150 ''access''"
               "\<lparr>ta_user_id = 2\<rparr>"]
          h i a n guard_carol
    by simp
qed


subsection \<open>Updating a task\<close>

lemma update_fields_frame:
  assumes "update_fields db task_update task = Inr task'"
  shows "t_id task' = t_id task \<and> t_created_by task' = t_created_by task \<and>
         t_created_at task' = t_created_at task \<and> t_is_deleted task' = t_is_deleted task \<and>
         t_updated_at task' = t_updated_at task \<and>
         (tu_title task_update = None \<longrightarrow> t_title task' = t_title task) \<and>
         (tu_description task_update = None \<longrightarrow> t_description task' = t_description task) \<and>
         (tu_status task_update = None \<longrightarrow> t_status task' = t_status task) \<and>
         (tu_priority task_update = None \<longrightarrow> t_priority task' = t_priority task) \<and>
         (tu_due_date task_update = None \<longrightarrow> t_due_date task' = t_due_date task) \<and>
         (tu_assigned_user_id task_update = None \<longrightarrow>
            t_assigned_user_id task' = t_assigned_user_id task) \<and>
         (t_description task \<noteq> None \<longrightarrow> t_description task' \<noteq> None) \<and>
         (t_due_date task \<noteq> None \<longrightarrow> t_due_date task' \<noteq> None) \<and>
         (t_assigned_user_id task \<noteq> None \<longrightarrow> t_assigned_user_id task' \<noteq> None)"
proof -
  define task1 where
    "task1 = (case tu_title task_update of None \<Rightarrow> task | Some v \<Rightarrow> task\<lparr>t_title := v\<rparr>)"
  define task2 where
    "task2 = (case tu_description task_update of
                None \<Rightarrow> task1 | Some v \<Rightarrow> task1\<lparr>t_description := Some v\<rparr>)"
  define task3 where
    "task3 = (case tu_status task_update of None \<Rightarrow> task2 | Some v \<Rightarrow> task2\<lparr>t_status := v\<rparr>)"
  define task4 where
    "task4 = (case tu_priority task_update of None \<Rightarrow> task3 | Some v \<Rightarrow> task3\<lparr>t_priority := v\<rparr>)"
  define task5 where
    "task5 = (case tu_due_date task_update of
                None \<Rightarrow> task4 | Some v \<Rightarrow> task4\<lparr>t_due_date := Some v\<rparr>)"
  have 1: "task1 = task\<lparr>t_title := (case tu_title task_update of
                                          None \<Rightarrow> t_title task | Some v \<Rightarrow> v)\<rparr>"
    by (cases "tu_title task_update") (simp_all add: task1_def)
  have 2: "task2 = task1\<lparr>t_description := (case tu_description task_update of
                                                 None \<Rightarrow> t_description task1 | Some v \<Rightarrow> Some v)\<rparr>"
    by (cases "tu_description task_update") (simp_all add: task2_def)
  have 3: "task3 = task2\<lparr>t_status := (case tu_status task_update of
                                            None \<Rightarrow> t_status task2 | Some v \<Rightarrow> v)\<rparr>"
    by (cases "tu_status task_update") (simp_all add: task3_def)
  have 4: "task4 = task3\<lparr>t_priority := (case tu_priority task_update of
                                              None \<Rightarrow> t_priority task3 | Some v \<Rightarrow> v)\<rparr>"
    by (cases "tu_priority task_update") (simp_all add: task4_def)
  have 5: "task5 = task4\<lparr>t_due_date := (case tu_due_date task_update of
                                              None \<Rightarrow> t_due_date task4 | Some v \<Rightarrow> Some v)\<rparr>"
    by (cases "tu_due_date task_update") (simp_all add: task5_def)
  have u: "update_fields db task_update task =
             (case tu_assigned_user_id task_update of
                None \<Rightarrow> Inr task5
              | Some a \<Rightarrow>
                  if a \<noteq> 0 \<and> find (\<lambda>u. u_id u = a) (users db) = None
                  then Inl (HTTPException HTTP_400_BAD_REQUEST ''Assigned user not found'')
                  else Inr (task5\<lparr>t_assigned_user_id := Some a\<rparr>))"
    by (simp only: update_fields_def Let_def task1_def task2_def task3_def task4_def task5_def)
  have 6: "task' = task5\<lparr>t_assigned_user_id :=
                           (case tu_assigned_user_id task_update of
                              None \<Rightarrow> t_assigned_user_id task5 | Some a \<Rightarrow> Some a)\<rparr>"
    using assms unfolding u
    by (cases "tu_assigned_user_id task_update") (auto split: if_splits)
  show ?thesis
    unfolding 6 5 4 3 2 1 by (simp split: option.split)
qed


lemma update_task_db:
  "users (snd (update_task db now task_id task_update current_user)) = users db \<and>
   refresh_tokens (snd (update_task db now task_id task_update current_user)) =
     refresh_tokens db \<and>
   (tasks (snd (update_task db now task_id task_update current_user)) = tasks db \<or>
    (\<exists>task task'.
       find (\<lambda>t. t_id t = task_id \<and> \<not> t_is_deleted t) (tasks db) = Some task \<and>
       update_fields db task_update task = Inr task' \<and>
       tasks (snd (update_task db now task_id task_update current_user)) =
         map (\<lambda>t. if t_id t = t_id task' then task'\<lparr>t_updated_at := now\<rparr> else t) (tasks db)))"
  by (auto simp: update_task_def commit_task_def write_task_def log_action_def
           split: option.splits sum.splits if_splits)

lemma update_task_alice:
  "tasks (snd (update_task db0 100 1
                 \<lparr>tu_title = Some ''New'', tu_description = None, tu_status = None,
                  tu_priority = None, tu_due_date = None, tu_assigned_user_id = None\<rparr> alice)) =
     [task1\<lparr>t_title := ''New'', t_updated_at := 100\<rparr>, task2, task3, task4]"
  by (simp add: update_task_def update_fields_def commit_task_def write_task_def
        log_action_def db0_def task1_def task2_def task3_def task4_def alice_def)

text \<open>
  C9, as the claim states it, fails: not every field the body does not mention is
  unchanged.  Alice puts a body with a title only on task 1 at time 100; the body
  cannot mention \<open>updated_at\<close>, which moves from 10 to 100.
\<close>

theorem update_task_updated_at_counterexample:
  "tasks db0 ! 0 = task1 \<and> t_updated_at task1 = 10 \<and>
   t_updated_at
     (tasks (snd (update_task db0 100 1
                    \<lparr>tu_title = Some ''New'', tu_description = None, tu_status = None,
                     tu_priority = None, tu_due_date = None, tu_assigned_user_id = None\<rparr> alice)) ! 0) =
     100"
  unfolding update_task_alice by (simp add: db0_def task1_def)

text \<open>
  C9, amended.  Whatever \<open>update_task\<close> answers, it leaves the users and the refresh
  tokens as they were and the tasks table with the same rows in the same places (ids
  being the primary key), and in every row: the id, creator, creation time and
  deletion flag are unchanged; a row of another id is unchanged altogether; each of
  the six fields of the body that is absent or null keeps its value; a description,
  due date or assignee that was set is still set; and \<open>updated_at\<close>, the one field
  that changes without being in the body, is the time of the request on a row that
  was written, every other row being unchanged altogether.
\<close>

theorem update_task_frame:
  assumes "distinct (map t_id (tasks db))"
  shows "users (snd (update_task db now task_id task_update current_user)) = users db \<and>
         refresh_tokens (snd (update_task db now task_id task_update current_user)) =
           refresh_tokens db \<and>
         length (tasks (snd (update_task db now task_id task_update current_user))) =
           length (tasks db) \<and>
         (\<forall>i < length (tasks db).
            let t = tasks db ! i;
                t' = tasks (snd (update_task db now task_id task_update current_user)) ! i
            in t_id t' = t_id t \<and> t_created_by t' = t_created_by t \<and>
               t_created_at t' = t_created_at t \<and> t_is_deleted t' = t_is_deleted t \<and>
               (t_id t \<noteq> task_id \<longrightarrow> t' = t) \<and>
               (t' = t \<or> t_updated_at t' = now) \<and>
               (tu_title task_update = None \<longrightarrow> t_title t' = t_title t) \<and>
               (tu_description task_update = None \<longrightarrow> t_description t' = t_description t) \<and>
               (tu_status task_update = None \<longrightarrow> t_status t' = t_status t) \<and>
               (tu_priority task_update = None \<longrightarrow> t_priority t' = t_priority t) \<and>
               (tu_due_date task_update = None \<longrightarrow> t_due_date t' = t_due_date t) \<and>
               (tu_assigned_user_id task_update = None \<longrightarrow>
                  t_assigned_user_id t' = t_assigned_user_id t) \<and>
               (t_description t \<noteq> None \<longrightarrow> t_description t' \<noteq> None) \<and>
               (t_due_date t \<noteq> None \<longrightarrow> t_due_date t' \<noteq> None) \<and>
               (t_assigned_user_id t \<noteq> None \<longrightarrow> t_assigned_user_id t' \<noteq> None))"
proof -
  let ?db' = "snd (update_task db now task_id task_update current_user)"
  note d = update_task_db[of db now task_id task_update current_user]
  from d consider
      (same) "tasks ?db' = tasks db"
    | (written) task task' where
        "find (\<lambda>t. t_id t = task_id \<and> \<not> t_is_deleted t) (tasks db) = Some task"
        "update_fields db task_update task = Inr task'"
        "tasks ?db' = map (\<lambda>t. if t_id t = t_id task' then task'\<lparr>t_updated_at := now\<rparr> else t)
                        (tasks db)"
    by blast
  then have rows: "length (tasks ?db') = length (tasks db) \<and>
    (\<forall>i < length (tasks db).
            let t = tasks db ! i; t' = tasks ?db' ! i
            in t_id t' = t_id t \<and> t_created_by t' = t_created_by t \<and>
               t_created_at t' = t_created_at t \<and> t_is_deleted t' = t_is_deleted t \<and>
               (t_id t \<noteq> task_id \<longrightarrow> t' = t) \<and>
               (t' = t \<or> t_updated_at t' = now) \<and>
               (tu_title task_update = None \<longrightarrow> t_title t' = t_title t) \<and>
               (tu_description task_update = None \<longrightarrow> t_description t' = t_description t) \<and>
               (tu_status task_update = None \<longrightarrow> t_status t' = t_status t) \<and>
               (tu_priority task_update = None \<longrightarrow> t_priority t' = t_priority t) \<and>
               (tu_due_date task_update = None \<longrightarrow> t_due_date t' = t_due_date t) \<and>
               (tu_assigned_user_id task_update = None \<longrightarrow>
                  t_assigned_user_id t' = t_assigned_user_id t) \<and>
               (t_description t \<noteq> None \<longrightarrow> t_description t' \<noteq> None) \<and>
               (t_due_date t \<noteq> None \<longrightarrow> t_due_date t' \<noteq> None) \<and>
               (t_assigned_user_id t \<noteq> None \<longrightarrow> t_assigned_user_id t' \<noteq> None))"
  proof cases
    case same
    then show ?thesis by (simp add: Let_def)
  next
    case written
    from find_Some_set[OF written(1)]
    have task: "task \<in> set (tasks db)" "t_id task = task_id" by simp_all
    note fr = update_fields_frame[OF written(2)]
    have row: "tasks db ! i = task"
      if "i < length (tasks db)" "t_id (tasks db ! i) = t_id task" for i
      using that task(1) assms by (meson distinct_map inj_onD nth_mem)
    show ?thesis
    proof (intro conjI allI impI)
      show "length (tasks ?db') = length (tasks db)"
        by (simp add: written(3))
    next
      fix i assume i: "i < length (tasks db)"
      show "let t = tasks db ! i; t' = tasks ?db' ! i
            in t_id t' = t_id t \<and> t_created_by t' = t_created_by t \<and>
               t_created_at t' = t_created_at t \<and> t_is_deleted t' = t_is_deleted t \<and>
               (t_id t \<noteq> task_id \<longrightarrow> t' = t) \<and>
               (t' = t \<or> t_updated_at t' = now) \<and>
               (tu_title task_update = None \<longrightarrow> t_title t' = t_title t) \<and>
               (tu_description task_update = None \<longrightarrow> t_description t' = t_description t) \<and>
               (tu_status task_update = None \<longrightarrow> t_status t' = t_status t) \<and>
               (tu_priority task_update = None \<longrightarrow> t_priority t' = t_priority t) \<and>
               (tu_due_date task_update = None \<longrightarrow> t_due_date t' = t_due_date t) \<and>
               (tu_assigned_user_id task_update = None \<longrightarrow>
                  t_assigned_user_id t' = t_assigned_user_id t) \<and>
               (t_description t \<noteq> None \<longrightarrow> t_description t' \<noteq> None) \<and>
               (t_due_date t \<noteq> None \<longrightarrow> t_due_date t' \<noteq> None) \<and>
               (t_assigned_user_id t \<noteq> None \<longrightarrow> t_assigned_user_id t' \<noteq> None)"
      proof (cases "t_id (tasks db ! i) = t_id task")
        case True
        then have "tasks db ! i = task" using row i by blast
        moreover have "tasks ?db' ! i = task'\<lparr>t_updated_at := now\<rparr>"
          using i True fr by (simp add: written(3))
        ultimately show ?thesis using fr task(2) by (simp add: Let_def)
      next
        case False
        then have "tasks ?db' ! i = tasks db ! i"
          using i fr by (simp add: written(3))
        then show ?thesis by (simp add: Let_def)
      qed
    qed
  qed
  show ?thesis using d rows by blast
qed


text \<open>
  Alice renames task 1 and gives no description: the stored description stays.
\<close>

theorem update_task_frame_witness:
  "distinct (map t_id (tasks db0)) \<and> (0::nat) < length (tasks db0) \<and>
   tasks db0 ! 0 = task1 \<and> t_description task1 = Some ''quarterly'' \<and>
   tasks (snd (update_task db0 100 1
                 \<lparr>tu_title = Some ''New'', tu_description = None, tu_status = None,
                  tu_priority = None, tu_due_date = None, tu_assigned_user_id = None\<rparr> alice)) =
     [task1\<lparr>t_title := ''New'', t_updated_at := 100\<rparr>, task2, task3, task4] \<and>
   t_description
     (tasks (snd (update_task db0 100 1
                    \<lparr>tu_title = Some ''New'', tu_description = None, tu_status = None,
                     tu_priority = None, tu_due_date = None, tu_assigned_user_id = None\<rparr> alice)) ! 0) =
     Some ''quarterly''"
proof -
  have d: "distinct (map t_id (tasks db0))"
    by (simp add: db0_def task1_def task2_def task3_def task4_def)
  have l: "(0::nat) < length (tasks db0)" "tasks db0 ! 0 = task1"
    by (simp_all add: db0_def)
  have q: "t_description task1 = Some ''quarterly''"
    by (simp add: task1_def)
  note e = update_task_alice
  have "t_description
     (tasks (snd (update_task db0 100 1
                    \<lparr>tu_title = Some ''New'', tu_description = None, tu_status = None,
                     tu_priority = None, tu_due_date = None, tu_assigned_user_id = None\<rparr> alice)) ! 0) =
     t_description (tasks db0 ! 0)"
    using update_task_frame
            [OF d, of 100 1
               "\<lparr>tu_title = Some ''New'', tu_description = None, tu_status = None,
                 tu_priority = None, tu_due_date = None, tu_assigned_user_id = None\<rparr>" alice]
          l(1)
    by (simp add: Let_def)
  then show ?thesis using d l q e by simp
qed


subsection \<open>Refresh-token rotation\<close>

lemma map_update_key:
  assumes "distinct (map f xs)" and "i < length xs"
  shows "map (\<lambda>r. if f r = f (xs ! i) then g r else r) xs = xs[i := g (xs ! i)]"
proof (rule nth_equalityI)
  show "length (map (\<lambda>r. if f r = f (xs ! i) then g r else r) xs) = length (xs[i := g (xs ! i)])"
    by simp
next
  fix j assume "j < length (map (\<lambda>r. if f r = f (xs ! i) then g r else r) xs)"
  then have j: "j < length xs" by simp
  have "f (xs ! j) = f (xs ! i) \<longleftrightarrow> j = i"
    using assms j by (metis distinct_conv_nth length_map nth_map)
  then show "map (\<lambda>r. if f r = f (xs ! i) then g r else r) xs ! j = xs[i := g (xs ! i)] ! j"
    using j by (auto simp: nth_list_update)
qed

lemma refresh_token_success:
  assumes "refresh_token settings db now refresh_data = (Inr response, cookies, db')"
  shows "\<exists>user_id obj.
           refresh_subject settings now (rq_refresh_token refresh_data) = Inr user_id \<and>
           find (\<lambda>r. rt_token r = rq_refresh_token refresh_data \<and> rt_user_id r = user_id \<and>
                      \<not> rt_is_revoked r \<and> rt_expires_at r > now) (refresh_tokens db) = Some obj \<and>
           create_refresh_token settings now (subject user_id) \<notin>
             set (map rt_token (refresh_tokens db)) \<and>
           db' = db\<lparr>refresh_tokens :=
                     map (\<lambda>r. if rt_id r = rt_id obj
                               then revoke (create_refresh_token settings now (subject user_id)) r
                               else r) (refresh_tokens db) @
                     [\<lparr>rt_id = next_id (map rt_id (refresh_tokens db)),
                       rt_token = create_refresh_token settings now (subject user_id),
                       rt_user_id = user_id,
                       rt_expires_at = now + days 7,
                       rt_is_revoked = False,
                       rt_created_at = now,
                       rt_replaced_by_token = None\<rparr>]\<rparr> \<and>
           cookies = [refresh_cookie (create_refresh_token settings now (subject user_id))] \<and>
           response = \<lparr>access_token = create_access_token settings now (subject user_id) None,
                       token_type = ''bearer''\<rparr>"
proof -
  let ?tok = "rq_refresh_token refresh_data"
  obtain user_id where s: "refresh_subject settings now ?tok = Inr user_id"
    using assms by (cases "refresh_subject settings now ?tok") (auto simp: refresh_token_def)
  let ?P = "\<lambda>r. rt_token r = ?tok \<and> rt_user_id r = user_id \<and> \<not> rt_is_revoked r \<and>
                 rt_expires_at r > now"
  obtain obj where f: "find ?P (refresh_tokens db) = Some obj"
    using assms s by (cases "find ?P (refresh_tokens db)") (auto simp: refresh_token_def)
  let ?new = "create_refresh_token settings now (subject user_id)"
  let ?rows = "map (\<lambda>r. if rt_id r = rt_id obj then revoke ?new r else r) (refresh_tokens db)"
  let ?obj = "\<lparr>rt_id = next_id (map rt_id (refresh_tokens db)), rt_token = ?new,
               rt_user_id = user_id, rt_expires_at = now + days 7, rt_is_revoked = False,
               rt_created_at = now, rt_replaced_by_token = None\<rparr>"
  have tok: "map rt_token ?rows = map rt_token (refresh_tokens db)"
    by (induction "refresh_tokens db") (auto simp: revoke_def)
  have r: "refresh_token settings db now refresh_data =
             (case add_refresh_token (db\<lparr>refresh_tokens := ?rows\<rparr>) ?obj of
                Inl e \<Rightarrow> (Inl e, [], db)
              | Inr db2 \<Rightarrow>
                  (Inr \<lparr>access_token = create_access_token settings now (subject user_id) None,
                        token_type = ''bearer''\<rparr>,
                   [refresh_cookie ?new], db2))"
    by (simp add: refresh_token_def s f Let_def)
  have a: "add_refresh_token (db\<lparr>refresh_tokens := ?rows\<rparr>) ?obj =
             (if ?new \<in> set (map rt_token (refresh_tokens db)) then Inl IntegrityError
              else Inr (db\<lparr>refresh_tokens := ?rows @ [?obj]\<rparr>))"
    unfolding add_refresh_token_def using tok by simp
  have n: "?new \<notin> set (map rt_token (refresh_tokens db))"
    using assms unfolding r a by (auto split: if_splits)
  have "db' = db\<lparr>refresh_tokens := ?rows @ [?obj]\<rparr> \<and> cookies = [refresh_cookie ?new] \<and>
        response = \<lparr>access_token = create_access_token settings now (subject user_id) None,
                    token_type = ''bearer''\<rparr>"
    using assms n unfolding r a by auto
  with s f n show ?thesis by blast
qed

lemma refresh_token_consumed:
  assumes "\<forall>r \<in> set (refresh_tokens db). rt_token r = rq_refresh_token refresh_data \<longrightarrow> rt_is_revoked r"
  shows "\<exists>d. refresh_token settings db now refresh_data =
               (Inl (HTTPException HTTP_401_UNAUTHORIZED d), [], db)"
proof (cases "refresh_subject settings now (rq_refresh_token refresh_data)")
  case (Inl e)
  then have "e = HTTPException HTTP_401_UNAUTHORIZED ''Invalid refresh token''"
    by (auto simp: refresh_subject_def split: sum.splits option.splits)
  with Inl show ?thesis by (simp add: refresh_token_def)
next
  case (Inr user_id)
  have "find (\<lambda>r. rt_token r = rq_refresh_token refresh_data \<and> rt_user_id r = user_id \<and>
                      \<not> rt_is_revoked r \<and> rt_expires_at r > now) (refresh_tokens db) = None"
    using assms by (auto simp: find_None_iff)
  with Inr show ?thesis by (simp add: refresh_token_def)
qed


text \<open>
  C1.  Let the stored refresh tokens have distinct ids and distinct token values (the
  primary key and the unique column of the table).  When \<open>refresh_token\<close> succeeds,
  the token presented verifies as a refresh token of some subject, and one row of
  the table holds it, belongs to that subject, is not revoked and not expired; after
  the request the table is the old one with that one row marked revoked and its
  \<open>replaced_by_token\<close> set to the new refresh token, followed by one new row, not
  revoked, for the new token, which is also the value of the cookie; the other
  tables are unchanged; and presenting the consumed token again, at any time, fails
  with Unauthorized and changes nothing.
\<close>

theorem refresh_token_rotation:
  assumes "distinct (map rt_id (refresh_tokens db))"
      and "distinct (map rt_token (refresh_tokens db))"
      and "refresh_token settings db now refresh_data = (Inr response, cookies, db')"
  shows "\<exists>i new_token user_id.
           i < length (refresh_tokens db) \<and>
           rt_token (refresh_tokens db ! i) = rq_refresh_token refresh_data \<and>
           rt_user_id (refresh_tokens db ! i) = user_id \<and>
           refresh_subject settings now (rq_refresh_token refresh_data) = Inr user_id \<and>
           \<not> rt_is_revoked (refresh_tokens db ! i) \<and> rt_expires_at (refresh_tokens db ! i) > now \<and>
           new_token = create_refresh_token settings now (subject user_id) \<and>
           new_token \<notin> set (map rt_token (refresh_tokens db)) \<and>
           refresh_tokens db' =
             (refresh_tokens db)
               [i := (refresh_tokens db ! i)
                       \<lparr>rt_is_revoked := True, rt_replaced_by_token := Some new_token\<rparr>] @
             [\<lparr>rt_id = next_id (map rt_id (refresh_tokens db)), rt_token = new_token,
               rt_user_id = user_id, rt_expires_at = now + days 7, rt_is_revoked = False,
               rt_created_at = now, rt_replaced_by_token = None\<rparr>] \<and>
           users db' = users db \<and> tasks db' = tasks db \<and> audit_logs db' = audit_logs db \<and>
           cookies = [refresh_cookie new_token] \<and>
           (\<forall>now'. \<exists>d. refresh_token settings db' now' refresh_data =
                          (Inl (HTTPException HTTP_401_UNAUTHORIZED d), [], db'))"
proof -
  let ?tok = "rq_refresh_token refresh_data"
  let ?rows = "refresh_tokens db"
  from refresh_token_success[OF assms(3)] obtain user_id obj where
    s: "refresh_subject settings now ?tok = Inr user_id" and
    f: "find (\<lambda>r. rt_token r = ?tok \<and> rt_user_id r = user_id \<and>
                  \<not> rt_is_revoked r \<and> rt_expires_at r > now) ?rows = Some obj" and
    n: "create_refresh_token settings now (subject user_id) \<notin> set (map rt_token ?rows)" and
    d: "db' = db\<lparr>refresh_tokens :=
                   map (\<lambda>r. if rt_id r = rt_id obj
                             then revoke (create_refresh_token settings now (subject user_id)) r
                             else r) ?rows @
                   [\<lparr>rt_id = next_id (map rt_id ?rows),
                     rt_token = create_refresh_token settings now (subject user_id),
                     rt_user_id = user_id,
                     rt_expires_at = now + days 7,
                     rt_is_revoked = False,
                     rt_created_at = now,
                     rt_replaced_by_token = None\<rparr>]\<rparr>" and
    c: "cookies = [refresh_cookie (create_refresh_token settings now (subject user_id))]"
    by blast
  let ?new = "create_refresh_token settings now (subject user_id)"
  from find_Some_set[OF f] have
    obj: "obj \<in> set ?rows" "rt_token obj = ?tok" "rt_user_id obj = user_id"
         "\<not> rt_is_revoked obj" "rt_expires_at obj > now"
    by simp_all
  from obj(1) obtain i where i: "i < length ?rows" "?rows ! i = obj"
    by (auto simp: in_set_conv_nth)
  have m: "map (\<lambda>r. if rt_id r = rt_id obj then revoke ?new r else r) ?rows =
           ?rows[i := obj\<lparr>rt_is_revoked := True, rt_replaced_by_token := Some ?new\<rparr>]"
    using map_update_key[OF assms(1) i(1), of "revoke ?new"] i(2)
    by (simp add: revoke_def)
  have rows': "refresh_tokens db' =
                 ?rows[i := obj\<lparr>rt_is_revoked := True, rt_replaced_by_token := Some ?new\<rparr>] @
                 [\<lparr>rt_id = next_id (map rt_id ?rows), rt_token = ?new,
                   rt_user_id = user_id, rt_expires_at = now + days 7, rt_is_revoked = False,
                   rt_created_at = now, rt_replaced_by_token = None\<rparr>]"
    unfolding d using m by simp
  have other: "rt_token (?rows ! j) \<noteq> ?tok" if "j < length ?rows" "j \<noteq> i" for j
    using that i obj(2) assms(2)
    by (metis distinct_conv_nth length_map nth_map)
  have revoked: "rt_is_revoked r" if "r \<in> set (refresh_tokens db')" "rt_token r = ?tok" for r
  proof -
    from that(1) consider
        "r \<in> set (?rows[i := obj\<lparr>rt_is_revoked := True, rt_replaced_by_token := Some ?new\<rparr>])"
      | "rt_token r = ?new"
      unfolding rows' by auto
    then show ?thesis
    proof cases
      case 1
      then obtain j where j: "j < length ?rows"
        "r = ?rows[i := obj\<lparr>rt_is_revoked := True, rt_replaced_by_token := Some ?new\<rparr>] ! j"
        by (auto simp: in_set_conv_nth)
      show ?thesis
      proof (cases "j = i")
        case True
        with j i show ?thesis by simp
      next
        case False
        with j have "r = ?rows ! j" by simp
        with other[OF j(1) False] that(2) show ?thesis by simp
      qed
    next
      case 2
      with that(2) n obj(1,2) show ?thesis by force
    qed
  qed
  have again: "\<exists>d. refresh_token settings db' now' refresh_data =
                     (Inl (HTTPException HTTP_401_UNAUTHORIZED d), [], db')" for now'
    using refresh_token_consumed[of db' refresh_data settings now'] revoked by blast
  have frame: "users db' = users db \<and> tasks db' = tasks db \<and> audit_logs db' = audit_logs db"
    unfolding d by simp
  show ?thesis
    using i obj s n rows' c again frame by blast
qed

text \<open>
  Alice's stored token is presented at time 2000 and rotated; presented again at
  time 3000 it is refused.
\<close>

lemma refresh_db_login:
  "refresh_token default_settings db_login 2000 \<lparr>rq_refresh_token = signed ''1'' 605800 ''refresh''\<rparr> =
     (Inr \<lparr>access_token = signed ''1'' 2900 ''access'', token_type = ''bearer''\<rparr>,
      [refresh_cookie (signed ''1'' 606800 ''refresh'')], db_rotated)"
  by (simp add: refresh_token_def refresh_subject_def verify_token_def signed_def db_login_def db_rotated_def
        alice_refresh_def default_settings_def int_of_str_def int_of_digits_def digit_val_def
        create_access_token_def create_refresh_token_def jwt_encode_def subject_def str_1
        add_refresh_token_def revoke_def next_id_def days_def minutes_def Let_def)

theorem refresh_token_rotation_witness:
  "distinct (map rt_id (refresh_tokens db_login)) \<and> distinct (map rt_token (refresh_tokens db_login)) \<and>
   refresh_token default_settings db_login 2000 \<lparr>rq_refresh_token = signed ''1'' 605800 ''refresh''\<rparr> =
     (Inr \<lparr>access_token = signed ''1'' 2900 ''access'', token_type = ''bearer''\<rparr>,
      [refresh_cookie (signed ''1'' 606800 ''refresh'')], db_rotated) \<and>
   (\<exists>d. refresh_token default_settings db_rotated 3000
           \<lparr>rq_refresh_token = signed ''1'' 605800 ''refresh''\<rparr> =
         (Inl (HTTPException HTTP_401_UNAUTHORIZED d), [], db_rotated))"
proof -
  have d: "distinct (map rt_id (refresh_tokens db_login))" "distinct (map rt_token (refresh_tokens db_login))"
    by (simp_all add: db_login_def)
  from refresh_token_rotation[OF d refresh_db_login]
  have "\<forall>now'. \<exists>d. refresh_token default_settings db_rotated now'
                       \<lparr>rq_refresh_token = signed ''1'' 605800 ''refresh''\<rparr> =
                     (Inl (HTTPException HTTP_401_UNAUTHORIZED d), [], db_rotated)"
    by blast
  then show ?thesis using d refresh_db_login by blast
qed

subsection \<open>Bulk assignment\<close>

text \<open>
  C6.  \<open>bulk_assign_tasks\<close> takes the number of tasks loaded for the number of ids
  requested.  With the id of task 1 given twice, every id requested resolves to a
  task that is not deleted and the target user exists, yet the request fails with
  Bad Request "Some tasks not found"; with the id given once it succeeds.
\<close>

theorem bulk_assign_duplicate_ids:
  "find (\<lambda>u. u_id u = 2) (users db0) = Some bob \<and>
   find (\<lambda>t. t_id t = 1 \<and> \<not> t_is_deleted t) (tasks db0) = Some task1 \<and>
   bulk_assign_tasks db0 100 [1, 1] 2 carol =
     (Inl (HTTPException HTTP_400_BAD_REQUEST ''Some tasks not found''), db0) \<and>
   fst (bulk_assign_tasks db0 100 [1] 2 carol) =
     Inr \<lparr>ba_message = ''Bulk assigned 0 tasks to user 2'', ba_updated_tasks = 0,
          ba_total_tasks = 1\<rparr>"
proof -
  have u: "find (\<lambda>u. u_id u = 2) (users db0) = Some bob"
    by (simp add: db0_def alice_def bob_def)
  have t: "find (\<lambda>t. t_id t = 1 \<and> \<not> t_is_deleted t) (tasks db0) = Some task1"
    by (simp add: db0_def task1_def)
  have s: "filter (\<lambda>t. t_id t \<in> set [1, 1] \<and> t_is_deleted t = False) (tasks db0) = [task1]"
          "filter (\<lambda>t. t_id t \<in> set [1] \<and> t_is_deleted t = False) (tasks db0) = [task1]"
    by (simp_all add: db0_def task1_def task2_def task3_def task4_def)
  have str0: "str 0 = ''0''" "str 2 = ''2''"
    by (simp_all add: str_def str_nat.simps digit_char_def)
  have a: "t_assigned_user_id task1 = Some 2"
    by (simp add: task1_def)
  have b2: "bulk_assign_tasks db0 100 [1, 1] 2 carol =
     (Inl (HTTPException HTTP_400_BAD_REQUEST ''Some tasks not found''), db0)"
    unfolding bulk_assign_tasks_def u Let_def s by simp
  have b1: "fst (bulk_assign_tasks db0 100 [1] 2 carol) =
     Inr \<lparr>ba_message = ''Bulk assigned 0 tasks to user 2'', ba_updated_tasks = 0,
          ba_total_tasks = 1\<rparr>"
    unfolding bulk_assign_tasks_def u Let_def s using a by (simp add: str0)
  show ?thesis using u t b2 b1 by simp
qed

text \<open>
  For a list of ids without repetition (and ids being the primary key of the table),
  \<open>bulk_assign_tasks\<close> fails exactly when the target user does not exist or some id
  requested resolves to no task that is not deleted, and every failure is a Bad
  Request that leaves the database as it was.
\<close>

lemma selected_length_iff:
  assumes "distinct (map t_id ts)" and "distinct task_ids"
  shows "length (filter (\<lambda>t. t_id t \<in> set task_ids \<and> t_is_deleted t = False) ts) = length task_ids
           \<longleftrightarrow> (\<forall>i \<in> set task_ids. \<exists>t \<in> set ts. t_id t = i \<and> \<not> t_is_deleted t)"
proof -
  define sel where "sel = filter (\<lambda>t. t_id t \<in> set task_ids \<and> t_is_deleted t = False) ts"
  have mem: "t \<in> set sel \<longleftrightarrow> t \<in> set ts \<and> t_id t \<in> set task_ids \<and> \<not> t_is_deleted t" for t
    by (simp add: sel_def)
  have dsel: "distinct (map t_id sel)"
    unfolding sel_def using assms(1) by (rule distinct_map_filter)
  have "card (set (map t_id sel)) = length (map t_id sel)"
    using dsel by (rule distinct_card)
  then have len: "length sel = card (t_id ` set sel)"
    by simp
  have ids: "length task_ids = card (set task_ids)"
    using assms(2) by (simp add: distinct_card)
  have sub: "t_id ` set sel \<subseteq> set task_ids"
    using mem by blast
  have "length sel = length task_ids
          \<longleftrightarrow> (\<forall>i \<in> set task_ids. \<exists>t \<in> set ts. t_id t = i \<and> \<not> t_is_deleted t)"
  proof
    assume "length sel = length task_ids"
    then have "card (t_id ` set sel) = card (set task_ids)"
      using len ids by simp
    with sub have eq: "t_id ` set sel = set task_ids"
      by (simp add: card_subset_eq)
    show "\<forall>i \<in> set task_ids. \<exists>t \<in> set ts. t_id t = i \<and> \<not> t_is_deleted t"
    proof
      fix i assume "i \<in> set task_ids"
      with eq have "i \<in> t_id ` set sel" by simp
      then obtain t where "t \<in> set sel" "t_id t = i" by blast
      with mem show "\<exists>t \<in> set ts. t_id t = i \<and> \<not> t_is_deleted t" by blast
    qed
  next
    assume all: "\<forall>i \<in> set task_ids. \<exists>t \<in> set ts. t_id t = i \<and> \<not> t_is_deleted t"
    have "set task_ids \<subseteq> t_id ` set sel"
    proof
      fix i assume i: "i \<in> set task_ids"
      with all obtain t where "t \<in> set ts" "t_id t = i" "\<not> t_is_deleted t" by blast
      with i mem have "t \<in> set sel" by simp
      with \<open>t_id t = i\<close> show "i \<in> t_id ` set sel" by blast
    qed
    with sub have "t_id ` set sel = set task_ids" by blast
    then show "length sel = length task_ids"
      using len ids by simp
  qed
  then show ?thesis by (simp add: sel_def)
qed


lemma bulk_assign_tasks_fails_iff:
  assumes "distinct (map t_id (tasks db))" and "distinct task_ids"
  shows "(isl (fst (bulk_assign_tasks db now task_ids user_id admin_user)) \<longleftrightarrow>
            find (\<lambda>u. u_id u = user_id) (users db) = None \<or>
            (\<exists>i \<in> set task_ids. \<forall>t \<in> set (tasks db). t_id t = i \<longrightarrow> t_is_deleted t)) \<and>
         (isl (fst (bulk_assign_tasks db now task_ids user_id admin_user)) \<longrightarrow>
            (\<exists>d. bulk_assign_tasks db now task_ids user_id admin_user =
                   (Inl (HTTPException HTTP_400_BAD_REQUEST d), db)))"
proof (cases "find (\<lambda>u. u_id u = user_id) (users db)")
  case None
  then show ?thesis by (simp add: bulk_assign_tasks_def)
next
  case (Some user)
  define sel where
    "sel = filter (\<lambda>t. t_id t \<in> set task_ids \<and> t_is_deleted t = False) (tasks db)"
  note l = selected_length_iff[OF assms, folded sel_def]
  show ?thesis
  proof (cases "length sel = length task_ids")
    case True
    then have "\<not> isl (fst (bulk_assign_tasks db now task_ids user_id admin_user))"
      unfolding bulk_assign_tasks_def Let_def sel_def[symmetric] Some
      by (simp split: prod.splits)
    moreover have "\<not> (\<exists>i \<in> set task_ids. \<forall>t \<in> set (tasks db). t_id t = i \<longrightarrow> t_is_deleted t)"
      using True l by blast
    ultimately show ?thesis using Some by simp
  next
    case False
    then have "bulk_assign_tasks db now task_ids user_id admin_user =
                 (Inl (HTTPException HTTP_400_BAD_REQUEST ''Some tasks not found''), db)"
      unfolding bulk_assign_tasks_def Let_def sel_def[symmetric] Some by simp
    moreover have "\<exists>i \<in> set task_ids. \<forall>t \<in> set (tasks db). t_id t = i \<longrightarrow> t_is_deleted t"
      using False l by blast
    ultimately show ?thesis by simp
  qed
qed


text \<open>
  When \<open>bulk_assign_tasks\<close> succeeds, every task listed that is not deleted and whose
  assignee differs from the target gets the target as assignee, no other row or
  table changes, and the counts returned are those of the tasks updated and of the
  tasks listed.
\<close>

lemma bulk_assign_loop_result:
  assumes "distinct (map t_id sel)"
  shows "bulk_assign_loop now user_id sel db n =
           (db\<lparr>tasks :=
                 map (\<lambda>t. case find (\<lambda>s. t_id s = t_id t \<and> t_assigned_user_id s \<noteq> Some user_id) sel of
                             None \<Rightarrow> t
                           | Some s \<Rightarrow> s\<lparr>t_assigned_user_id := Some user_id, t_updated_at := now\<rparr>)
                     (tasks db)\<rparr>,
            n + length (filter (\<lambda>s. t_assigned_user_id s \<noteq> Some user_id) sel))"
  using assms
proof (induction sel arbitrary: db n)
  case Nil
  then show ?case by simp
next
  case (Cons task rest)
  then have d: "distinct (map t_id rest)" and notin: "t_id task \<notin> t_id ` set rest"
    by simp_all
  have "\<not> (\<exists>s. s \<in> set rest \<and> t_id s = t_id task \<and> t_assigned_user_id s \<noteq> Some user_id)"
  proof
    assume "\<exists>s. s \<in> set rest \<and> t_id s = t_id task \<and> t_assigned_user_id s \<noteq> Some user_id"
    then obtain s where s: "s \<in> set rest" "t_id s = t_id task" by blast
    from s(1) have "t_id s \<in> t_id ` set rest" by (rule imageI)
    with s(2) notin show False by simp
  qed
  then have none:
    "find (\<lambda>s. t_id s = t_id task \<and> t_assigned_user_id s \<noteq> Some user_id) rest = None"
    by (simp add: find_None_iff)
  show ?case
  proof (cases "t_assigned_user_id task \<noteq> Some user_id")
    case True
    have row: "(case find (\<lambda>s. t_id s = t_id (if t_id t = t_id task
                                                 then task\<lparr>t_assigned_user_id := Some user_id,
                                                          t_updated_at := now\<rparr>
                                                 else t) \<and>
                                  t_assigned_user_id s \<noteq> Some user_id) rest of
                 None \<Rightarrow> (if t_id t = t_id task
                          then task\<lparr>t_assigned_user_id := Some user_id, t_updated_at := now\<rparr>
                          else t)
               | Some s \<Rightarrow> s\<lparr>t_assigned_user_id := Some user_id, t_updated_at := now\<rparr>) =
               (case find (\<lambda>s. t_id s = t_id t \<and> t_assigned_user_id s \<noteq> Some user_id)
                       (task # rest) of
                 None \<Rightarrow> t
               | Some s \<Rightarrow> s\<lparr>t_assigned_user_id := Some user_id, t_updated_at := now\<rparr>)" for t
      using True none by (cases "t_id t = t_id task") simp_all
    show ?thesis
      using True by (simp add: Cons.IH[OF d] write_task_def comp_def row)
  next
    case False
    then show ?thesis
      by (simp add: Cons.IH[OF d] cong: map_cong)
  qed
qed

lemma bulk_assign_tasks_success:
  assumes "distinct (map t_id (tasks db))"
      and "bulk_assign_tasks db now task_ids user_id admin_user = (Inr result, db')"
  shows "tasks db' =
           map (\<lambda>t. if t_id t \<in> set task_ids \<and> \<not> t_is_deleted t \<and>
                        t_assigned_user_id t \<noteq> Some user_id
                     then t\<lparr>t_assigned_user_id := Some user_id, t_updated_at := now\<rparr>
                     else t) (tasks db) \<and>
         users db' = users db \<and> refresh_tokens db' = refresh_tokens db \<and>
         audit_logs db' = audit_logs db \<and>
         ba_updated_tasks result =
           length (filter (\<lambda>t. t_id t \<in> set task_ids \<and> \<not> t_is_deleted t \<and>
                                t_assigned_user_id t \<noteq> Some user_id) (tasks db)) \<and>
         ba_total_tasks result =
           length (filter (\<lambda>t. t_id t \<in> set task_ids \<and> \<not> t_is_deleted t) (tasks db)) \<and>
         ba_total_tasks result = length task_ids"
proof -
  define sel where
    "sel = filter (\<lambda>t. t_id t \<in> set task_ids \<and> t_is_deleted t = False) (tasks db)"
  have dsel: "distinct (map t_id sel)"
    unfolding sel_def using assms(1) by (rule distinct_map_filter)
  obtain user where u: "find (\<lambda>u. u_id u = user_id) (users db) = Some user"
    using assms(2) by (cases "find (\<lambda>u. u_id u = user_id) (users db)")
                       (auto simp: bulk_assign_tasks_def)
  have len: "length sel = length task_ids"
    using assms(2) unfolding bulk_assign_tasks_def Let_def sel_def[symmetric] u
    by (auto split: if_splits)
  note loop = bulk_assign_loop_result[OF dsel, of now user_id db 0]
  have r: "result = \<lparr>ba_message = ''Bulk assigned '' @
                          str (int (length (filter (\<lambda>s. t_assigned_user_id s \<noteq> Some user_id) sel))) @
                          '' tasks to user '' @ str user_id,
                      ba_updated_tasks = length (filter (\<lambda>s. t_assigned_user_id s \<noteq> Some user_id) sel),
                      ba_total_tasks = length sel\<rparr>"
      and d: "db' = db\<lparr>tasks :=
                 map (\<lambda>t. case find (\<lambda>s. t_id s = t_id t \<and> t_assigned_user_id s \<noteq> Some user_id) sel of
                             None \<Rightarrow> t
                           | Some s \<Rightarrow> s\<lparr>t_assigned_user_id := Some user_id, t_updated_at := now\<rparr>)
                     (tasks db)\<rparr>"
    using assms(2) len unfolding bulk_assign_tasks_def Let_def sel_def[symmetric] u
    by (simp_all add: loop)
  have row: "(case find (\<lambda>s. t_id s = t_id t \<and> t_assigned_user_id s \<noteq> Some user_id) sel of
                None \<Rightarrow> t
              | Some s \<Rightarrow> s\<lparr>t_assigned_user_id := Some user_id, t_updated_at := now\<rparr>) =
             (if t_id t \<in> set task_ids \<and> \<not> t_is_deleted t \<and> t_assigned_user_id t \<noteq> Some user_id
              then t\<lparr>t_assigned_user_id := Some user_id, t_updated_at := now\<rparr> else t)"
    if t: "t \<in> set (tasks db)" for t
  proof (cases "find (\<lambda>s. t_id s = t_id t \<and> t_assigned_user_id s \<noteq> Some user_id) sel")
    case None
    then have "\<not> (t \<in> set sel \<and> t_assigned_user_id t \<noteq> Some user_id)"
      by (auto simp: find_None_iff)
    with t None show ?thesis by (auto simp: sel_def)
  next
    case (Some s)
    from find_Some_set[OF Some] have s: "s \<in> set sel" "t_id s = t_id t"
      "t_assigned_user_id s \<noteq> Some user_id" by simp_all
    from s(1) have "s \<in> set (tasks db)" by (simp add: sel_def)
    with s(2) t assms(1) have "s = t" by (meson distinct_map inj_onD)
    with s Some show ?thesis by (auto simp: sel_def)
  qed
  have tasks': "tasks db' =
           map (\<lambda>t. if t_id t \<in> set task_ids \<and> \<not> t_is_deleted t \<and>
                        t_assigned_user_id t \<noteq> Some user_id
                     then t\<lparr>t_assigned_user_id := Some user_id, t_updated_at := now\<rparr>
                     else t) (tasks db)"
    unfolding d using row by (simp cong: map_cong)
  have cnt: "filter (\<lambda>s. t_assigned_user_id s \<noteq> Some user_id) sel =
             filter (\<lambda>t. t_id t \<in> set task_ids \<and> \<not> t_is_deleted t \<and>
                          t_assigned_user_id t \<noteq> Some user_id) (tasks db)"
    unfolding sel_def by (simp add: conj_commute conj_left_commute cong: conj_cong)
  show ?thesis
    using tasks' cnt len unfolding r d sel_def by simp
qed


end
